theory Spec2Isabelle
  imports Complex_Main "HOL-Library.Multiset"
begin

section \<open>The financial ledger hook \<open>useFinanceiro\<close>\<close>

text \<open>
  The hook keeps one piece of state, \<open>dados\<close>, and offers four operations:
  \<open>carregarDadosFinanceiros\<close> (the load), \<open>salvarTransacao\<close>, \<open>editarTransacao\<close> and
  \<open>excluirTransacao\<close>. Every operation talks to the remote store through awaited calls.
  In the model an operation receives the answers the store gives to the calls it awaits,
  and returns the list of calls it issued, in order, together with its result and the new
  \<open>dados\<close>. The operations are deterministic, so quantifying over the answers covers every
  behaviour of the store.
\<close>

subsection \<open>Host functions\<close>

text \<open>
  \<open>parseFloat\<close>, \<open>Date\<close> and \<open>toLocaleString\<close> belong to the JavaScript host and are
  parameters of the model. Numbers are values of a type \<open>'n\<close> with \<open>0\<close>, \<open>+\<close> and \<open>-\<close> and
  no law assumed of them (IEEE addition is not associative); a \<open>NaN\<close> result of
  \<open>parseFloat\<close> or \<open>getTime\<close> is \<open>None\<close>. \<open>Date_agora h k\<close> is the reading of the clock
  (\<open>new Date()\<close>) taken while the entry number \<open>k\<close> of the list is built.
\<close>

record ('n, 'd) host =
  parseFloat :: "string \<Rightarrow> 'n option"
  Date_de :: "string option \<Rightarrow> 'd"
  Date_agora :: "nat \<Rightarrow> 'd"
  toLocaleString :: "'d \<Rightarrow> string"
  getTime :: "'d \<Rightarrow> int option"

subsection \<open>Data\<close>

record cliente =
  c_id :: "string option"
  c_nome :: string
  c_created_at :: "string option"
  c_plano :: "string option"
  c_produto :: "string option"

record plano =
  p_id :: "string option"
  p_nome :: string
  p_valor :: string

record produto =
  pr_id :: "string option"
  pr_nome :: string
  pr_valor :: string

text \<open>
  A row of the relation \<open>transacoes\<close> is untyped in the source (\<open>any\<close>). \<open>parseFloat\<close>
  converts its argument to a string first, so \<open>t_valor\<close> holds that string; \<open>t_tipo\<close> and
  \<open>t_created_at\<close> may be absent. The description is a string, as \<open>NovaTransacao\<close>
  declares it for every row the hook writes; so are the prices of plans and products.
\<close>

record transacao =
  t_id :: string
  t_valor :: string
  t_tipo :: "string option"
  t_descricao :: string
  t_created_at :: "string option"

record 'n TransacaoFinanceira =
  tf_id :: string
  tf_cliente :: string
  tf_tipo :: "string option"
  tf_valor :: 'n
  tf_data :: string
  tf_detalheTitulo :: string
  tf_detalheValor :: string
  tf_isCustom :: bool
  tf_descricao :: "string option"

datatype tipo = Entrada | Saida

record 'n NovaTransacao =
  n_valor :: 'n
  n_tipo :: tipo
  n_descricao :: string

record 'n dados =
  entradas :: 'n
  saidas :: 'n
  lucros :: 'n
  transacoes :: "'n TransacaoFinanceira list"
  loading :: bool
  error :: "string option"

definition dados_iniciais :: "('n::zero) dados" where
  "dados_iniciais =
     \<lparr>entradas = 0, saidas = 0, lucros = 0, transacoes = [], loading = True, error = None\<rparr>"

subsection \<open>The store: answers and calls\<close>

text \<open>
  An awaited store call either rejects (the \<open>await\<close> throws) or resolves to
  \<open>{data, error}\<close>: \<open>Resolvida (Inl e)\<close> is \<open>{data: null, error: e}\<close> and
  \<open>Resolvida (Inr x)\<close> is \<open>{data: x, error: null}\<close>.
\<close>

record erro =
  e_code :: "string option"
  e_message :: string

datatype excecao = Error string | Lancado erro

datatype 'a resposta = Rejeitada excecao | Resolvida "erro + 'a"

datatype 'n chamada =
    Select string
  | SelectOrdemDesc string string
  | Insert string "'n NovaTransacao" string
  | Update string string "'n NovaTransacao"
  | Delete string string
  | Invoke string

record respostas_carga =
  r_clientes :: "cliente list resposta"
  r_planos :: "plano list resposta"
  r_produtos :: "produto list resposta"
  r_transacoes :: "transacao list resposta"

subsection \<open>Strings\<close>

text \<open>
  A string is a list of characters with codes below 256, which covers every literal of
  the hook (its messages and labels are Latin-1).
\<close>

text \<open>A value used as a condition: \<open>undefined\<close>, \<open>null\<close> and the empty string are falsy.\<close>

definition truthy :: "string option \<Rightarrow> bool" where
  "truthy v = (case v of None \<Rightarrow> False | Some s \<Rightarrow> s \<noteq> [])"

text \<open>
  A value inside a template literal. An absent value is taken to be \<open>undefined\<close> and
  prints as such; a \<open>null\<close>, which would print as \<open>null\<close>, is not told apart from it.
\<close>

definition modelo :: "string option \<Rightarrow> string" where
  "modelo v = (case v of None \<Rightarrow> ''undefined'' | Some s \<Rightarrow> s)"

text \<open>The class \<open>\s\<close> of a regular expression, among the characters below 256.\<close>

definition espaco :: "char \<Rightarrow> bool" where
  "espaco c = (c = CHR 0x09 \<or> c = CHR 0x0A \<or> c = CHR 0x0B \<or> c = CHR 0x0C \<or> c = CHR 0x0D
                \<or> c = CHR 0x20 \<or> c = CHR 0xA0)"

text \<open>\<open>s.replace(/[R$\s]/g, '')\<close>\<close>

definition remover_moeda :: "string \<Rightarrow> string" where
  "remover_moeda s = filter (\<lambda>c. \<not> (c = CHR ''R'' \<or> c = CHR ''$'' \<or> espaco c)) s"

text \<open>\<open>s.replace(',', '.')\<close>: only the first comma is replaced.\<close>

fun replace_virgula :: "string \<Rightarrow> string" where
  "replace_virgula [] = []"
| "replace_virgula (c # cs) = (if c = CHR '','' then CHR ''.'' # cs else c # replace_virgula cs)"

text \<open>\<open>s.split(sep)\<close> for a one-character separator: never the empty list.\<close>

fun split_str :: "char \<Rightarrow> string \<Rightarrow> string list" where
  "split_str sep [] = [[]]"
| "split_str sep (c # cs) =
     (if c = sep then [] # split_str sep cs
      else (case split_str sep cs of [] \<Rightarrow> [[c]] | l # ls \<Rightarrow> (c # l) # ls))"

text \<open>\<open>xs.join(sep)\<close>\<close>

fun join_str :: "string \<Rightarrow> string list \<Rightarrow> string" where
  "join_str sep [] = []"
| "join_str sep [x] = x"
| "join_str sep (x # y # ys) = x @ sep @ join_str sep (y # ys)"

definition rotulo_customizada :: string where
  "rotulo_customizada = ''Transa'' @ [CHR 0xE7, CHR 0xE3] @ ''o customizada''"

definition rotulo_sem_detalhes :: string where
  "rotulo_sem_detalhes = ''Sem detalhes''"

subsection \<open>\<open>Array.prototype.sort\<close>\<close>

text \<open>
  The sort of the host is stable, and a comparator result of \<open>NaN\<close> counts as \<open>+0\<close>. For a
  consistent comparator every stable sort returns the same list; the model inserts each
  element, from the last to the first, before the first element it does not come after.
  For a comparator that is not consistent (some pairs compare as \<open>NaN\<close>, others do not)
  the language leaves the order to the host, whose order need not be the one of this
  insertion; no statement below evaluates the sort on such a list.
\<close>

definition SortCompare :: "('a \<Rightarrow> 'a \<Rightarrow> int option) \<Rightarrow> 'a \<Rightarrow> 'a \<Rightarrow> int" where
  "SortCompare comparefn x y = (case comparefn x y of None \<Rightarrow> 0 | Some v \<Rightarrow> v)"

fun inserir :: "('a \<Rightarrow> 'a \<Rightarrow> int) \<Rightarrow> 'a \<Rightarrow> 'a list \<Rightarrow> 'a list" where
  "inserir cmp x [] = [x]"
| "inserir cmp x (y # ys) = (if cmp x y \<le> 0 then x # y # ys else y # inserir cmp x ys)"

definition Array_sort :: "('a \<Rightarrow> 'a \<Rightarrow> int option) \<Rightarrow> 'a list \<Rightarrow> 'a list" where
  "Array_sort comparefn xs = foldr (inserir (SortCompare comparefn)) xs []"

subsection \<open>The load: \<open>carregarDadosFinanceiros\<close>\<close>

record 'n acumulado =
  totalEntradas :: 'n
  totalSaidas :: 'n
  lista :: "'n TransacaoFinanceira list"

text \<open>\<open>new Map(xs.map(p => [p.id, p]))\<close>: of two records with one id the later one stays.\<close>

definition Map_de :: "('a \<Rightarrow> string option) \<Rightarrow> 'a list \<Rightarrow> string option \<Rightarrow> 'a option" where
  "Map_de chave xs = map_of (rev (map (\<lambda>p. (chave p, p)) xs))"

text \<open>\<open>valor.replace(/[R$\s]/g, '').replace(',', '.')\<close>, then \<open>parseFloat\<close>.\<close>

definition valor_de :: "('n, 'd) host \<Rightarrow> string \<Rightarrow> 'n option" where
  "valor_de h valor = parseFloat h (replace_virgula (remover_moeda valor))"

text \<open>\<open>new Date(cliente.created_at || new Date()).toLocaleString('pt-BR')\<close>\<close>

definition data_cliente :: "('n, 'd) host \<Rightarrow> cliente \<Rightarrow> nat \<Rightarrow> string" where
  "data_cliente h c k =
     toLocaleString h
       (if truthy (c_created_at c) then Date_de h (c_created_at c) else Date_agora h k)"

definition processar_plano ::
  "('n::plus, 'd) host \<Rightarrow> (string option \<Rightarrow> plano option) \<Rightarrow> cliente \<Rightarrow> 'n acumulado
     \<Rightarrow> 'n acumulado" where
  "processar_plano h planosMap c a =
     (if truthy (c_plano c) then
        (case planosMap (c_plano c) of
           None \<Rightarrow> a
         | Some pl \<Rightarrow>
             (case valor_de h (p_valor pl) of
                None \<Rightarrow> a
              | Some valorPlano \<Rightarrow>
                  a\<lparr>totalEntradas := totalEntradas a + valorPlano,
                    lista := lista a @
                      [\<lparr>tf_id = ''entrada-'' @ modelo (c_id c),
                        tf_cliente = c_nome c,
                        tf_tipo = Some ''entrada'',
                        tf_valor = valorPlano,
                        tf_data = data_cliente h c (length (lista a)),
                        tf_detalheTitulo = ''Plano'',
                        tf_detalheValor = p_nome pl,
                        tf_isCustom = False,
                        tf_descricao = None\<rparr>]\<rparr>))
      else a)"

definition processar_produto ::
  "('n::plus, 'd) host \<Rightarrow> (string option \<Rightarrow> produto option) \<Rightarrow> cliente \<Rightarrow> 'n acumulado
     \<Rightarrow> 'n acumulado" where
  "processar_produto h produtosMap c a =
     (if truthy (c_produto c) then
        (case produtosMap (c_produto c) of
           None \<Rightarrow> a
         | Some pr \<Rightarrow>
             (case valor_de h (pr_valor pr) of
                None \<Rightarrow> a
              | Some valorProduto \<Rightarrow>
                  a\<lparr>totalSaidas := totalSaidas a + valorProduto,
                    lista := lista a @
                      [\<lparr>tf_id = ''saida-'' @ modelo (c_id c),
                        tf_cliente = c_nome c,
                        tf_tipo = Some ''saida'',
                        tf_valor = valorProduto,
                        tf_data = data_cliente h c (length (lista a)),
                        tf_detalheTitulo = ''Produto'',
                        tf_detalheValor = pr_nome pr,
                        tf_isCustom = False,
                        tf_descricao = None\<rparr>]\<rparr>))
      else a)"

definition processar_cliente ::
  "('n::plus, 'd) host \<Rightarrow> (string option \<Rightarrow> plano option) \<Rightarrow> (string option \<Rightarrow> produto option)
     \<Rightarrow> 'n acumulado \<Rightarrow> cliente \<Rightarrow> 'n acumulado" where
  "processar_cliente h planosMap produtosMap a c =
     processar_produto h produtosMap c (processar_plano h planosMap c a)"

text \<open>
  The description of a custom transaction: \<open>linhas[0]\<close>, or the label
  \<open>rotulo_customizada\<close> when that is falsy, and \<open>linhas.slice(1).join(' ')\<close>, or
  \<open>'Sem detalhes'\<close> when that is falsy.
\<close>

definition cliente_da_descricao :: "string \<Rightarrow> string" where
  "cliente_da_descricao descricao =
     (case split_str CHR 0x0A descricao of
        [] \<Rightarrow> rotulo_customizada
      | l # ls \<Rightarrow> (if l = [] then rotulo_customizada else l))"

definition detalhe_da_descricao :: "string \<Rightarrow> string" where
  "detalhe_da_descricao descricao =
     (let resto = join_str '' '' (drop 1 (split_str CHR 0x0A descricao))
      in if resto = [] then rotulo_sem_detalhes else resto)"

definition processar_customizada ::
  "('n::plus, 'd) host \<Rightarrow> 'n acumulado \<Rightarrow> transacao \<Rightarrow> 'n acumulado" where
  "processar_customizada h a t =
     (case parseFloat h (t_valor t) of
        None \<Rightarrow> a
      | Some valor \<Rightarrow>
          (let a1 = (if t_tipo t = Some ''entrada''
                     then a\<lparr>totalEntradas := totalEntradas a + valor\<rparr>
                     else a\<lparr>totalSaidas := totalSaidas a + valor\<rparr>)
           in a1\<lparr>lista := lista a1 @
                 [\<lparr>tf_id = t_id t,
                   tf_cliente = cliente_da_descricao (t_descricao t),
                   tf_tipo = t_tipo t,
                   tf_valor = valor,
                   tf_data = toLocaleString h (Date_de h (t_created_at t)),
                   tf_detalheTitulo = ''Customizada'',
                   tf_detalheValor = detalhe_da_descricao (t_descricao t),
                   tf_isCustom = True,
                   tf_descricao = Some (t_descricao t)\<rparr>]\<rparr>))"

text \<open>The comparator \<open>(a, b) => new Date(b.data).getTime() - new Date(a.data).getTime()\<close>.\<close>

definition chave_data :: "('n, 'd) host \<Rightarrow> 'm TransacaoFinanceira \<Rightarrow> int option" where
  "chave_data h a = getTime h (Date_de h (Some (tf_data a)))"

definition comparar_datas ::
  "('n, 'd) host \<Rightarrow> 'm TransacaoFinanceira \<Rightarrow> 'm TransacaoFinanceira \<Rightarrow> int option" where
  "comparar_datas h a b =
     (case chave_data h b of
        None \<Rightarrow> None
      | Some tb \<Rightarrow> (case chave_data h a of None \<Rightarrow> None | Some ta \<Rightarrow> Some (tb - ta)))"

text \<open>The two loops (lines 100 to 179), from the empty accumulator.\<close>

definition acumular ::
  "('n::{zero,plus}, 'd) host \<Rightarrow> cliente list \<Rightarrow> plano list \<Rightarrow> produto list \<Rightarrow> transacao list
     \<Rightarrow> 'n acumulado" where
  "acumular h clientes planos produtos transacoesCustomizadas =
     foldl (processar_customizada h)
       (foldl (processar_cliente h (Map_de p_id planos) (Map_de pr_id produtos))
          \<lparr>totalEntradas = 0, totalSaidas = 0, lista = []\<rparr> clientes)
       transacoesCustomizadas"

text \<open>The state set at the end of a load that did not throw (lines 181 to 190).\<close>

definition montar ::
  "('n::{zero,plus,minus}, 'd) host \<Rightarrow> cliente list \<Rightarrow> plano list \<Rightarrow> produto list
     \<Rightarrow> transacao list \<Rightarrow> 'n dados" where
  "montar h clientes planos produtos transacoesCustomizadas =
     (let a = acumular h clientes planos produtos transacoesCustomizadas
      in \<lparr>entradas = totalEntradas a,
          saidas = totalSaidas a,
          lucros = totalEntradas a - totalSaidas a,
          transacoes = Array_sort (comparar_datas h) (lista a),
          loading = False,
          error = None\<rparr>)"

text \<open>
  \<open>transacoesRes.data || []\<close>: the select of \<open>transacoes\<close> sits in a \<open>try\<close> of its own, and
  its \<open>error\<close> field is never read.
\<close>

definition dados_ou_vazio :: "'a list resposta \<Rightarrow> 'a list" where
  "dados_ou_vazio r =
     (case r of
        Rejeitada x \<Rightarrow> []
      | Resolvida (Inl e) \<Rightarrow> []
      | Resolvida (Inr linhas) \<Rightarrow> linhas)"

definition mensagem_carga :: string where
  "mensagem_carga = ''Erro ao carregar dados financeiros''"

text \<open>The \<open>catch\<close> of the load (lines 192 to 199), after line 58 has run.\<close>

definition carga_falhou :: "'n dados \<Rightarrow> 'n dados" where
  "carga_falhou prev =
     (prev\<lparr>loading := True, error := None\<rparr>)\<lparr>loading := False, error := Some mensagem_carga\<rparr>"

definition tres_selects :: "'n chamada list" where
  "tres_selects = [Select ''clientes'', Select ''planos'', Select ''produtos'']"

definition carregarDadosFinanceiros ::
  "('n::{zero,plus,minus}, 'd) host \<Rightarrow> string option \<Rightarrow> respostas_carga \<Rightarrow> 'n dados
     \<Rightarrow> 'n chamada list \<times> 'n dados" where
  "carregarDadosFinanceiros h userId r prev =
     (if \<not> truthy userId then ([], prev)
      else
        (case r_clientes r of
           Rejeitada x \<Rightarrow> (tres_selects, carga_falhou prev)
         | Resolvida clientesRes \<Rightarrow>
        (case r_planos r of
           Rejeitada x \<Rightarrow> (tres_selects, carga_falhou prev)
         | Resolvida planosRes \<Rightarrow>
        (case r_produtos r of
           Rejeitada x \<Rightarrow> (tres_selects, carga_falhou prev)
         | Resolvida produtosRes \<Rightarrow>
             (tres_selects @ [SelectOrdemDesc ''transacoes'' ''created_at''],
              (let transacoesCustomizadas = dados_ou_vazio (r_transacoes r)
               in case clientesRes of
                    Inl e \<Rightarrow> carga_falhou prev
                  | Inr clientes \<Rightarrow>
                 (case planosRes of
                    Inl e \<Rightarrow> carga_falhou prev
                  | Inr planos \<Rightarrow>
                 (case produtosRes of
                    Inl e \<Rightarrow> carga_falhou prev
                  | Inr produtos \<Rightarrow>
                      montar h clientes planos produtos transacoesCustomizadas))))))))"

subsection \<open>The writes: \<open>salvarTransacao\<close>, \<open>editarTransacao\<close>, \<open>excluirTransacao\<close>\<close>

record respostas_salvar =
  s_insert :: "unit resposta"
  s_invoke :: "unit resposta"
  s_segundo_insert :: "unit resposta"
  s_recarga :: respostas_carga

record respostas_mutacao =
  m_resposta :: "unit resposta"
  m_recarga :: respostas_carga

definition mensagem_nao_autenticado :: string where
  "mensagem_nao_autenticado = ''Usu'' @ [CHR 0xE1] @ ''rio n'' @ [CHR 0xE3] @ ''o autenticado''"

definition mensagem_tabela :: string where
  "mensagem_tabela =
     ''A tabela de transa'' @ [CHR 0xE7, CHR 0xF5] @ ''es n'' @ [CHR 0xE3] @ ''o existe e n''
     @ [CHR 0xE3] @ ''o foi poss'' @ [CHR 0xED] @ ''vel cri'' @ [CHR 0xE1]
     @ ''-la automaticamente. Contacte o suporte.''"

text \<open>
  The body of the inner \<open>try\<close> (lines 220 to 244): the calls it issues, and what it throws
  (\<open>Inl\<close>) or that it completes (\<open>Inr\<close>).
\<close>

definition criar_e_inserir ::
  "'n chamada \<Rightarrow> respostas_salvar \<Rightarrow> 'n chamada list \<times> (excecao + unit)" where
  "criar_e_inserir ins r =
     (case s_invoke r of
        Rejeitada x \<Rightarrow> ([Invoke ''create-transacoes''], Inl x)
      | Resolvida (Inl createError) \<Rightarrow>
          ([Invoke ''create-transacoes''],
           Inl (Error (''Erro ao criar tabela: '' @ e_message createError)))
      | Resolvida (Inr createResult) \<Rightarrow>
          (case s_segundo_insert r of
             Rejeitada x \<Rightarrow> ([Invoke ''create-transacoes'', ins], Inl x)
           | Resolvida (Inl insertError) \<Rightarrow>
               ([Invoke ''create-transacoes'', ins], Inl (Lancado insertError))
           | Resolvida (Inr u) \<Rightarrow> ([Invoke ''create-transacoes'', ins], Inr ())))"

text \<open>
  Lines 216 to 251, once the first insert has resolved: the inner \<open>try\<close> with its
  \<open>catch\<close>, which throws a new \<open>Error\<close> whatever it caught, or the \<open>else if\<close>.
\<close>

definition apos_insert ::
  "'n chamada \<Rightarrow> respostas_salvar \<Rightarrow> erro + unit \<Rightarrow> 'n chamada list \<times> (excecao + unit)" where
  "apos_insert ins r res =
     (case res of
        Inr u \<Rightarrow> ([], Inr ())
      | Inl err \<Rightarrow>
          (if e_code err = Some ''PGRST205'' then
             (case criar_e_inserir ins r of
                (cs, Inl createErr) \<Rightarrow> (cs, Inl (Error mensagem_tabela))
              | (cs, Inr u) \<Rightarrow> (cs, Inr ()))
           else ([], Inl (Lancado err))))"

definition salvarTransacao ::
  "('n::{zero,plus,minus}, 'd) host \<Rightarrow> string option \<Rightarrow> 'n NovaTransacao \<Rightarrow> respostas_salvar
     \<Rightarrow> 'n dados \<Rightarrow> 'n chamada list \<times> (excecao + unit) \<times> 'n dados" where
  "salvarTransacao h userId novaTransacao r prev =
     (if \<not> truthy userId then ([], Inl (Error mensagem_nao_autenticado), prev)
      else
        (let ins = Insert ''transacoes'' novaTransacao (modelo userId)
         in case s_insert r of
              Rejeitada x \<Rightarrow> ([ins], Inl x, prev)
            | Resolvida res \<Rightarrow>
                (case apos_insert ins r res of
                   (cs, Inl x) \<Rightarrow> (ins # cs, Inl x, prev)
                 | (cs, Inr u) \<Rightarrow>
                     (case carregarDadosFinanceiros h userId (s_recarga r) prev of
                        (cs', d) \<Rightarrow> (ins # cs @ cs', Inr (), d)))))"

definition editarTransacao ::
  "('n::{zero,plus,minus}, 'd) host \<Rightarrow> string option \<Rightarrow> string \<Rightarrow> 'n NovaTransacao
     \<Rightarrow> respostas_mutacao \<Rightarrow> 'n dados \<Rightarrow> 'n chamada list \<times> (excecao + unit) \<times> 'n dados" where
  "editarTransacao h userId ident transacaoEditada r prev =
     (let upd = Update ''transacoes'' ident transacaoEditada
      in case m_resposta r of
           Rejeitada x \<Rightarrow> ([upd], Inl x, prev)
         | Resolvida (Inl err) \<Rightarrow> ([upd], Inl (Lancado err), prev)
         | Resolvida (Inr u) \<Rightarrow>
             (case carregarDadosFinanceiros h userId (m_recarga r) prev of
                (cs, d) \<Rightarrow> (upd # cs, Inr (), d)))"

definition excluirTransacao ::
  "('n::{zero,plus,minus}, 'd) host \<Rightarrow> string option \<Rightarrow> string \<Rightarrow> respostas_mutacao
     \<Rightarrow> 'n dados \<Rightarrow> 'n chamada list \<times> (excecao + unit) \<times> 'n dados" where
  "excluirTransacao h userId ident r prev =
     (let del = Delete ''transacoes'' ident
      in case m_resposta r of
           Rejeitada x \<Rightarrow> ([del], Inl x, prev)
         | Resolvida (Inl err) \<Rightarrow> ([del], Inl (Lancado err), prev)
         | Resolvida (Inr u) \<Rightarrow>
             (case carregarDadosFinanceiros h userId (m_recarga r) prev of
                (cs, d) \<Rightarrow> (del # cs, Inr (), d)))"

subsection \<open>Predicates on the answers\<close>

definition falhou :: "'a resposta \<Rightarrow> bool" where
  "falhou r = (case r of Rejeitada x \<Rightarrow> True | Resolvida (Inl e) \<Rightarrow> True | Resolvida (Inr x) \<Rightarrow> False)"

definition fontes_ok :: "respostas_carga \<Rightarrow> bool" where
  "fontes_ok r = (\<not> falhou (r_clientes r) \<and> \<not> falhou (r_planos r) \<and> \<not> falhou (r_produtos r))"

definition contar_invoke :: "'n chamada list \<Rightarrow> nat" where
  "contar_invoke cs = length (filter (\<lambda>c. case c of Invoke f \<Rightarrow> True | _ \<Rightarrow> False) cs)"

definition contar_insert :: "'n chamada list \<Rightarrow> nat" where
  "contar_insert cs = length (filter (\<lambda>c. case c of Insert t n u \<Rightarrow> True | _ \<Rightarrow> False) cs)"

text \<open>
  The state after a sequence of loads, each with the user of its moment and the answers
  it was given. The writes change the state through the load only.
\<close>

definition carregar_em_sequencia ::
  "('n::{zero,plus,minus}, 'd) host \<Rightarrow> (string option \<times> respostas_carga) list \<Rightarrow> 'n dados
     \<Rightarrow> 'n dados" where
  "carregar_em_sequencia h cargas d0 =
     foldl (\<lambda>d (userId, r). snd (carregarDadosFinanceiros h userId r d)) d0 cargas"

text \<open>What \<open>const { error } = await call; if (error) throw error\<close> throws, if anything.\<close>

definition erro_de :: "'a resposta \<Rightarrow> excecao option" where
  "erro_de r =
     (case r of
        Rejeitada x \<Rightarrow> Some x
      | Resolvida (Inl e) \<Rightarrow> Some (Lancado e)
      | Resolvida (Inr x) \<Rightarrow> None)"

subsection \<open>Records without a parsed amount\<close>

text \<open>
  A customer refers to a plan (a product) without an amount when the plan the map holds
  under that reference has a price that \<open>valor_de\<close> reads as \<open>NaN\<close>.
  \<open>sem_referencias_invalidas\<close> drops such references from a customer.
\<close>

definition valor_parseia :: "('n, 'd) host \<Rightarrow> transacao \<Rightarrow> bool" where
  "valor_parseia h t = (case parseFloat h (t_valor t) of None \<Rightarrow> False | Some v \<Rightarrow> True)"

definition plano_sem_valor :: "('n, 'd) host \<Rightarrow> plano list \<Rightarrow> cliente \<Rightarrow> bool" where
  "plano_sem_valor h planos c =
     (case Map_de p_id planos (c_plano c) of
        None \<Rightarrow> False
      | Some pl \<Rightarrow> valor_de h (p_valor pl) = None)"

definition produto_sem_valor :: "('n, 'd) host \<Rightarrow> produto list \<Rightarrow> cliente \<Rightarrow> bool" where
  "produto_sem_valor h produtos c =
     (case Map_de pr_id produtos (c_produto c) of
        None \<Rightarrow> False
      | Some pr \<Rightarrow> valor_de h (pr_valor pr) = None)"

definition sem_referencias_invalidas ::
  "('n, 'd) host \<Rightarrow> plano list \<Rightarrow> produto list \<Rightarrow> cliente \<Rightarrow> cliente" where
  "sem_referencias_invalidas h planos produtos c =
     c\<lparr>c_plano := (if plano_sem_valor h planos c then None else c_plano c),
       c_produto := (if produto_sem_valor h produtos c then None else c_produto c)\<rparr>"

subsection \<open>The totals and the list\<close>

text \<open>
  The totals agree with the list when the total inflow is the sum, from \<open>0\<close> and in the
  order of the list, of the amounts of the entries whose direction is \<open>entrada\<close>, and the
  total outflow is that sum over the other entries.
\<close>

definition totais_conferem :: "('n::{zero,plus}) acumulado \<Rightarrow> bool" where
  "totais_conferem a =
     (totalEntradas a
        = foldl (+) 0 (map tf_valor (filter (\<lambda>e. tf_tipo e = Some ''entrada'') (lista a)))
      \<and> totalSaidas a
        = foldl (+) 0 (map tf_valor (filter (\<lambda>e. tf_tipo e \<noteq> Some ''entrada'') (lista a))))"

subsection \<open>A host and a store to run the operations on\<close>

text \<open>
  The tables list what a host in the UTC time zone answers on the strings used below: the
  time value of \<open>new Date(s)\<close>, the \<open>pt-BR\<close> rendering of a time value, and
  \<open>parseFloat\<close>. A date object is its time value, \<open>None\<close> for an invalid date. The host
  reads \<open>a/b/yyyy\<close> as month \<open>a\<close>, day \<open>b\<close>: \<open>05/03/2024\<close> is the third of May, and
  \<open>15/01/2024\<close> is no date. A string outside a table has no number or no date, as is the
  case of the ones used below: \<open>abc\<close> and \<open>gratis\<close> for \<open>parseFloat\<close>, the display strings
  of 15 January 2024 for \<open>new Date\<close>. An absent argument of \<open>new Date\<close> is \<open>undefined\<close>
  (no date). The amounts of the example are exact rationals, where the host adds doubles.
\<close>

definition tabela_Date :: "(string \<times> int) list" where
  "tabela_Date =
     [(''2024-01-15T10:00:00+00:00'', 1705312800000),
      (''2024-01-15T09:00:00+00:00'', 1705309200000),
      (''2024-01-15T11:00:00+00:00'', 1705316400000),
      (''2024-03-05T10:00:00+00:00'', 1709632800000),
      (''2024-03-05T09:00:00+00:00'', 1709629200000),
      (''2024-03-05T11:00:00+00:00'', 1709636400000),
      (''05/03/2024, 10:00:00'', 1714730400000),
      (''05/03/2024, 09:00:00'', 1714726800000),
      (''05/03/2024, 11:00:00'', 1714734000000),
      (''05/03/2024, 12:00:00'', 1714737600000),
      (''2024-02-01T08:00:00+00:00'', 1706774400000),
      (''2024-01-02T08:00:00+00:00'', 1704182400000),
      (''01/02/2024, 08:00:00'', 1704182400000),
      (''02/01/2024, 08:00:00'', 1706774400000)]"

definition tabela_ptBR :: "(int \<times> string) list" where
  "tabela_ptBR =
     [(1705312800000, ''15/01/2024, 10:00:00''),
      (1705309200000, ''15/01/2024, 09:00:00''),
      (1705316400000, ''15/01/2024, 11:00:00''),
      (1709632800000, ''05/03/2024, 10:00:00''),
      (1709629200000, ''05/03/2024, 09:00:00''),
      (1709636400000, ''05/03/2024, 11:00:00''),
      (1709640000000, ''05/03/2024, 12:00:00''),
      (1706774400000, ''01/02/2024, 08:00:00''),
      (1704182400000, ''02/01/2024, 08:00:00'')]"

definition tabela_parseFloat :: "(string \<times> rat) list" where
  "tabela_parseFloat =
     [(''49.90'', 499 / 10), (''30.00'', 30), (''100'', 100), (''20'', 20), (''12.5'', 25 / 2)]"

definition host_exemplo :: "(rat, int option) host" where
  "host_exemplo =
     \<lparr>parseFloat = map_of tabela_parseFloat,
      Date_de = (\<lambda>v. case v of None \<Rightarrow> None | Some s \<Rightarrow> map_of tabela_Date s),
      Date_agora = (\<lambda>k. Some 1709640000000),
      toLocaleString =
        (\<lambda>d. case d of
               None \<Rightarrow> ''Invalid Date''
             | Some t \<Rightarrow> (case map_of tabela_ptBR t of None \<Rightarrow> [] | Some s \<Rightarrow> s)),
      getTime = (\<lambda>d. d)\<rparr>"

definition planos_exemplo :: "plano list" where
  "planos_exemplo =
     [\<lparr>p_id = Some ''p1'', p_nome = ''Mensal'', p_valor = ''R$ 49,90''\<rparr>,
      \<lparr>p_id = Some ''p2'', p_nome = ''Anual'', p_valor = ''R$ abc''\<rparr>]"

definition produtos_exemplo :: "produto list" where
  "produtos_exemplo =
     [\<lparr>pr_id = Some ''x1'', pr_nome = ''Painel'', pr_valor = ''R$ 30,00''\<rparr>,
      \<lparr>pr_id = Some ''x2'', pr_nome = ''Teste'', pr_valor = ''gratis''\<rparr>]"

definition cliente_exemplo :: "string \<Rightarrow> string \<Rightarrow> string option \<Rightarrow> string option \<Rightarrow> cliente" where
  "cliente_exemplo i quando pl pr =
     \<lparr>c_id = Some i, c_nome = ''Cliente '' @ i, c_created_at = Some quando, c_plano = pl,
      c_produto = pr\<rparr>"

text \<open>Three customers created on 5 March 2024 at 10:00, 09:00 and 11:00.\<close>

definition clientes_marco :: "cliente list" where
  "clientes_marco =
     [cliente_exemplo ''a'' ''2024-03-05T10:00:00+00:00'' (Some ''p1'') (Some ''x1''),
      cliente_exemplo ''b'' ''2024-03-05T09:00:00+00:00'' (Some ''p2'') (Some ''x2''),
      cliente_exemplo ''c'' ''2024-03-05T11:00:00+00:00'' (Some ''p1'') None]"

text \<open>Three customers on the plan \<open>p1\<close>, created on one day at 10:00, 09:00 and 11:00.\<close>

definition clientes_do_dia :: "string \<Rightarrow> cliente list" where
  "clientes_do_dia dia =
     [cliente_exemplo ''a'' (dia @ ''T10:00:00+00:00'') (Some ''p1'') None,
      cliente_exemplo ''b'' (dia @ ''T09:00:00+00:00'') (Some ''p1'') None,
      cliente_exemplo ''c'' (dia @ ''T11:00:00+00:00'') (Some ''p1'') None]"

text \<open>Two customers, the first created on 1 February 2024, the second on 2 January 2024.\<close>

definition clientes_dois_meses :: "cliente list" where
  "clientes_dois_meses =
     [cliente_exemplo ''f'' ''2024-02-01T08:00:00+00:00'' (Some ''p1'') None,
      cliente_exemplo ''j'' ''2024-01-02T08:00:00+00:00'' (Some ''p1'') None]"

definition clientes_janeiro :: "cliente list" where
  "clientes_janeiro = clientes_do_dia ''2024-01-15''"

definition transacao_alice :: transacao where
  "transacao_alice =
     \<lparr>t_id = ''t1'', t_valor = ''100'', t_tipo = Some ''entrada'',
      t_descricao = ''Alice'' @ [CHR 0x0A] @ ''monthly fee'' @ [CHR 0x0A] @ ''via card'',
      t_created_at = Some ''2024-03-05T11:00:00+00:00''\<rparr>"

definition transacao_sem_valor :: transacao where
  "transacao_sem_valor =
     \<lparr>t_id = ''t2'', t_valor = ''abc'', t_tipo = Some ''saida'', t_descricao = ''Bob'',
      t_created_at = Some ''2024-03-05T10:00:00+00:00''\<rparr>"

definition transacao_sem_tipo :: transacao where
  "transacao_sem_tipo =
     \<lparr>t_id = ''t3'', t_valor = ''20'', t_tipo = None, t_descricao = [],
      t_created_at = Some ''2024-03-05T09:00:00+00:00''\<rparr>"

definition transacao_bob :: transacao where
  "transacao_bob =
     \<lparr>t_id = ''t4'', t_valor = ''30.00'', t_tipo = Some ''saida'', t_descricao = ''Bob'',
      t_created_at = Some ''2024-03-05T10:00:00+00:00''\<rparr>"

definition transacoes_exemplo :: "transacao list" where
  "transacoes_exemplo = [transacao_alice, transacao_sem_valor, transacao_sem_tipo]"

definition carga_exemplo :: "cliente list \<Rightarrow> transacao list resposta \<Rightarrow> respostas_carga" where
  "carga_exemplo cs rt =
     \<lparr>r_clientes = Resolvida (Inr cs), r_planos = Resolvida (Inr planos_exemplo),
      r_produtos = Resolvida (Inr produtos_exemplo), r_transacoes = rt\<rparr>"

definition erro_relacao :: erro where
  "erro_relacao =
     \<lparr>e_code = Some ''PGRST205'', e_message = ''Could not find the table in the schema cache''\<rparr>"

definition erro_permissao :: erro where
  "erro_permissao =
     \<lparr>e_code = Some ''42501'', e_message = ''new row violates row-level security policy''\<rparr>"

definition nova_exemplo :: "rat NovaTransacao" where
  "nova_exemplo = \<lparr>n_valor = 25 / 2, n_tipo = Saida, n_descricao = ''Carol''\<rparr>"

definition dados_anteriores :: "rat dados" where
  "dados_anteriores =
     \<lparr>entradas = 7, saidas = 2, lucros = 5, transacoes = [], loading = False, error = None\<rparr>"

definition carga_marco :: respostas_carga where
  "carga_marco = carga_exemplo clientes_marco (Resolvida (Inr transacoes_exemplo))"

text \<open>The same data without the references and the row that have no amount.\<close>

definition carga_marco_limpa :: respostas_carga where
  "carga_marco_limpa =
     carga_exemplo
       [cliente_exemplo ''a'' ''2024-03-05T10:00:00+00:00'' (Some ''p1'') (Some ''x1''),
        cliente_exemplo ''b'' ''2024-03-05T09:00:00+00:00'' None None,
        cliente_exemplo ''c'' ''2024-03-05T11:00:00+00:00'' (Some ''p1'') None]
       (Resolvida (Inr [transacao_alice, transacao_sem_tipo]))"

definition carga_sem_planos :: respostas_carga where
  "carga_sem_planos = carga_marco\<lparr>r_planos := Resolvida (Inl erro_permissao)\<rparr>"

definition carga_sem_transacoes :: respostas_carga where
  "carga_sem_transacoes = carga_exemplo clientes_marco (Resolvida (Inl erro_relacao))"

text \<open>The state after the first load, from the initial state, of the data of March.\<close>

definition dados_apos_marco :: "rat dados" where
  "dados_apos_marco =
     snd (carregarDadosFinanceiros host_exemplo (Some ''u1'') carga_marco dados_iniciais)"

definition carga_janeiro :: respostas_carga where
  "carga_janeiro = carga_exemplo clientes_janeiro (Resolvida (Inr []))"

definition salvar_relacao_ausente :: "unit resposta \<Rightarrow> unit resposta \<Rightarrow> respostas_salvar" where
  "salvar_relacao_ausente ri rs =
     \<lparr>s_insert = Resolvida (Inl erro_relacao), s_invoke = ri, s_segundo_insert = rs,
      s_recarga = carga_marco\<rparr>"

definition mutacao_recusada :: respostas_mutacao where
  "mutacao_recusada = \<lparr>m_resposta = Resolvida (Inl erro_permissao), m_recarga = carga_marco\<rparr>"

definition mutacao_aceita :: respostas_mutacao where
  "mutacao_aceita = \<lparr>m_resposta = Resolvida (Inr ()), m_recarga = carga_marco\<rparr>"

definition acumulado_exemplo :: "rat acumulado" where
  "acumulado_exemplo = \<lparr>totalEntradas = 7, totalSaidas = 2, lista = []\<rparr>"

section \<open>Properties of the load\<close>

subsection \<open>The outcomes of a load\<close>

lemma nao_falhou_dados: "\<not> falhou r \<Longrightarrow> \<exists>x. r = Resolvida (Inr x)"
  by (auto simp: falhou_def split: resposta.splits sum.splits)

lemma falhou_casos: "falhou r \<Longrightarrow> (\<exists>x. r = Rejeitada x) \<or> (\<exists>e. r = Resolvida (Inl e))"
  by (auto simp: falhou_def split: resposta.splits sum.splits)

lemma carregar_sem_usuario:
  "\<not> truthy userId \<Longrightarrow> carregarDadosFinanceiros h userId r prev = ([], prev)"
  by (simp add: carregarDadosFinanceiros_def)

lemma carregar_sucesso:
  assumes "truthy userId" and "r_clientes r = Resolvida (Inr cs)"
    and "r_planos r = Resolvida (Inr ps)" and "r_produtos r = Resolvida (Inr prs)"
  shows "carregarDadosFinanceiros h userId r prev =
           (tres_selects @ [SelectOrdemDesc ''transacoes'' ''created_at''],
            montar h cs ps prs (dados_ou_vazio (r_transacoes r)))"
  using assms by (simp add: carregarDadosFinanceiros_def)

lemma carregar_falha:
  assumes "truthy userId"
    and "falhou (r_clientes r) \<or> falhou (r_planos r) \<or> falhou (r_produtos r)"
  shows "snd (carregarDadosFinanceiros h userId r prev) = carga_falhou prev"
  using assms
  by (auto simp: carregarDadosFinanceiros_def falhou_def split: resposta.splits sum.splits)

lemma carregar_chamadas:
  "fst (carregarDadosFinanceiros h userId r prev) = []
   \<or> fst (carregarDadosFinanceiros h userId r prev) = tres_selects
   \<or> fst (carregarDadosFinanceiros h userId r prev)
        = tres_selects @ [SelectOrdemDesc ''transacoes'' ''created_at'']"
  by (simp add: carregarDadosFinanceiros_def split: resposta.splits)

lemma montar_lucros:
  "lucros (montar h cs ps prs ts) = entradas (montar h cs ps prs ts) - saidas (montar h cs ps prs ts)"
  by (simp add: montar_def Let_def)

lemma invariante_foldl: "(\<And>a x. P a \<Longrightarrow> P (f a x)) \<Longrightarrow> P a \<Longrightarrow> P (foldl f a xs)"
  by (induction xs arbitrary: a) auto

lemma truthy_u1: "truthy (Some ''u1'')"
  by (simp add: truthy_def)

lemma fontes_ok_carga_exemplo: "fontes_ok (carga_exemplo cs rt)"
  by (simp add: fontes_ok_def falhou_def carga_exemplo_def)

subsection \<open>Net profit\<close>

lemma carregar_mantem_lucros:
  "lucros prev = entradas prev - saidas prev \<Longrightarrow>
     lucros (snd (carregarDadosFinanceiros h userId r prev))
       = entradas (snd (carregarDadosFinanceiros h userId r prev))
         - saidas (snd (carregarDadosFinanceiros h userId r prev))"
proof (cases "truthy userId")
  case False
  assume "lucros prev = entradas prev - saidas prev"
  with False show ?thesis by (simp add: carregar_sem_usuario)
next
  case u: True
  assume p: "lucros prev = entradas prev - saidas prev"
  show ?thesis
  proof (cases "fontes_ok r")
    case True
    then obtain cs ps prs where
      f: "r_clientes r = Resolvida (Inr cs)" "r_planos r = Resolvida (Inr ps)"
         "r_produtos r = Resolvida (Inr prs)"
      unfolding fontes_ok_def by (blast dest: nao_falhou_dados)
    show ?thesis
      using carregar_sucesso[OF u f, of h prev] by (simp add: montar_lucros)
  next
    case False
    then have "falhou (r_clientes r) \<or> falhou (r_planos r) \<or> falhou (r_produtos r)"
      by (simp add: fontes_ok_def)
    from carregar_falha[OF u this, of h prev] p show ?thesis
      by (simp add: carga_falhou_def)
  qed
qed

lemma carregar_recalcula:
  assumes "truthy userId" and "fontes_ok r"
  shows "lucros (snd (carregarDadosFinanceiros h userId r prev))
           = entradas (snd (carregarDadosFinanceiros h userId r prev))
             - saidas (snd (carregarDadosFinanceiros h userId r prev))"
    and "snd (carregarDadosFinanceiros h userId r prev')
           = snd (carregarDadosFinanceiros h userId r prev)"
proof -
  from assms(2) obtain cs ps prs where
    f: "r_clientes r = Resolvida (Inr cs)" "r_planos r = Resolvida (Inr ps)"
       "r_produtos r = Resolvida (Inr prs)"
    unfolding fontes_ok_def by (blast dest: nao_falhou_dados)
  show "lucros (snd (carregarDadosFinanceiros h userId r prev))
           = entradas (snd (carregarDadosFinanceiros h userId r prev))
             - saidas (snd (carregarDadosFinanceiros h userId r prev))"
    using carregar_sucesso[OF assms(1) f, of h prev] by (simp add: montar_lucros)
  show "snd (carregarDadosFinanceiros h userId r prev')
           = snd (carregarDadosFinanceiros h userId r prev)"
    using carregar_sucesso[OF assms(1) f, of h prev] carregar_sucesso[OF assms(1) f, of h prev']
    by simp
qed

lemma carregar_mantem_totais:
  assumes "\<not> (truthy userId \<and> fontes_ok r)"
  shows "entradas (snd (carregarDadosFinanceiros h userId r prev)) = entradas prev
         \<and> saidas (snd (carregarDadosFinanceiros h userId r prev)) = saidas prev
         \<and> lucros (snd (carregarDadosFinanceiros h userId r prev)) = lucros prev
         \<and> transacoes (snd (carregarDadosFinanceiros h userId r prev)) = transacoes prev"
proof (cases "truthy userId")
  case False
  then show ?thesis by (simp add: carregar_sem_usuario)
next
  case u: True
  with assms have "falhou (r_clientes r) \<or> falhou (r_planos r) \<or> falhou (r_produtos r)"
    by (simp add: fontes_ok_def)
  from carregar_falha[OF u this, of h prev] show ?thesis
    by (simp add: carga_falhou_def)
qed

lemma sequencia_mantem_lucros:
  "lucros d0 = entradas d0 - saidas d0 \<Longrightarrow>
     lucros (carregar_em_sequencia h cargas d0)
       = entradas (carregar_em_sequencia h cargas d0) - saidas (carregar_em_sequencia h cargas d0)"
  unfolding carregar_em_sequencia_def
  by (rule invariante_foldl[where P = "\<lambda>d. lucros d = entradas d - saidas d"])
     (auto simp: carregar_mantem_lucros)

text \<open>
  C5, amended. After every load the reported net profit is the total inflow minus the
  total outflow: a load keeps the equation when it held before, so it holds after every
  sequence of loads from the initial state (where it reads \<open>0 = 0 - 0\<close>). A load that
  runs with a user and whose three sources answered computes the three totals again from
  the answers alone: the state it sets does not depend on the previous state. A load
  without a user, or with a failed select of the customers, the plans or the products,
  computes nothing: it leaves the three totals and the list of the previous state in
  place.
\<close>

theorem C5_lucros_recalculados:
  "(let d = snd (carregarDadosFinanceiros h userId r prev)
    in (lucros prev = entradas prev - saidas prev \<longrightarrow> lucros d = entradas d - saidas d)
       \<and> (truthy userId \<and> fontes_ok r \<longrightarrow>
            lucros d = entradas d - saidas d
            \<and> snd (carregarDadosFinanceiros h userId r prev') = d)
       \<and> (\<not> (truthy userId \<and> fontes_ok r) \<longrightarrow>
            entradas d = entradas prev \<and> saidas d = saidas prev \<and> lucros d = lucros prev
            \<and> transacoes d = transacoes prev))
   \<and> ((0::'n::{zero,plus,minus}) - 0 = 0 \<longrightarrow>
        (let d = carregar_em_sequencia h cargas (dados_iniciais :: 'n dados)
         in lucros d = entradas d - saidas d))"
proof -
  have "(0::'n) - 0 = 0 \<longrightarrow>
          lucros (carregar_em_sequencia h cargas (dados_iniciais :: 'n dados))
            = entradas (carregar_em_sequencia h cargas dados_iniciais)
              - saidas (carregar_em_sequencia h cargas dados_iniciais)"
    by (intro impI sequencia_mantem_lucros) (simp add: dados_iniciais_def)
  moreover have "lucros prev = entradas prev - saidas prev \<longrightarrow>
      lucros (snd (carregarDadosFinanceiros h userId r prev))
        = entradas (snd (carregarDadosFinanceiros h userId r prev))
          - saidas (snd (carregarDadosFinanceiros h userId r prev))"
    by (intro impI carregar_mantem_lucros)
  moreover have "truthy userId \<and> fontes_ok r \<longrightarrow>
      lucros (snd (carregarDadosFinanceiros h userId r prev))
        = entradas (snd (carregarDadosFinanceiros h userId r prev))
          - saidas (snd (carregarDadosFinanceiros h userId r prev))
      \<and> snd (carregarDadosFinanceiros h userId r prev')
          = snd (carregarDadosFinanceiros h userId r prev)"
    using carregar_recalcula[of userId r h prev] carregar_recalcula(2)[of userId r h prev' prev]
    by blast
  moreover have "\<not> (truthy userId \<and> fontes_ok r) \<longrightarrow>
      entradas (snd (carregarDadosFinanceiros h userId r prev)) = entradas prev
      \<and> saidas (snd (carregarDadosFinanceiros h userId r prev)) = saidas prev
      \<and> lucros (snd (carregarDadosFinanceiros h userId r prev)) = lucros prev
      \<and> transacoes (snd (carregarDadosFinanceiros h userId r prev)) = transacoes prev"
    by (intro impI carregar_mantem_totais)
  ultimately show ?thesis
    unfolding Let_def by (intro conjI)
qed

theorem C5_lucros_recalculados_witness:
  "truthy (Some ''u1'') \<and> fontes_ok carga_marco
   \<and> lucros dados_apos_marco = entradas dados_apos_marco - saidas dados_apos_marco
   \<and> (let d = snd (carregarDadosFinanceiros host_exemplo (Some ''u1'') carga_marco
                dados_apos_marco)
      in entradas d = 999 / 5 \<and> saidas d = 50 \<and> lucros d = 749 / 5
         \<and> lucros d = entradas d - saidas d
         \<and> snd (carregarDadosFinanceiros host_exemplo (Some ''u1'') carga_marco dados_iniciais) = d)
   \<and> (0::rat) - 0 = 0
   \<and> (let d = carregar_em_sequencia host_exemplo
                [(Some ''u1'', carga_sem_transacoes), (Some ''u1'', carga_sem_planos),
                 (None, carga_marco)] dados_iniciais
      in entradas d = 499 / 5 \<and> saidas d = 30 \<and> lucros d = 349 / 5
         \<and> lucros d = entradas d - saidas d)"
proof -
  have f: "fontes_ok carga_marco"
    by (simp add: carga_marco_def fontes_ok_carga_exemplo)
  have e: "entradas (snd (carregarDadosFinanceiros host_exemplo (Some ''u1'') carga_marco
             dados_apos_marco)) = 999 / 5"
    by code_simp
  have s: "saidas (snd (carregarDadosFinanceiros host_exemplo (Some ''u1'') carga_marco
             dados_apos_marco)) = 50"
    by code_simp
  have e': "entradas (carregar_em_sequencia host_exemplo
             [(Some ''u1'', carga_sem_transacoes), (Some ''u1'', carga_sem_planos),
              (None, carga_marco)] dados_iniciais) = 499 / 5"
    by code_simp
  have s': "saidas (carregar_em_sequencia host_exemplo
             [(Some ''u1'', carga_sem_transacoes), (Some ''u1'', carga_sem_planos),
              (None, carga_marco)] dados_iniciais) = 30"
    by code_simp
  have z: "(0::rat) - 0 = 0" by simp
  note t = C5_lucros_recalculados[where h = host_exemplo and userId = "Some ''u1''"
      and r = carga_marco and prev = dados_apos_marco and prev' = dados_iniciais
      and cargas = "[(Some ''u1'', carga_sem_transacoes), (Some ''u1'', carga_sem_planos),
                     (None, carga_marco)]", unfolded Let_def]
  have a: "lucros (snd (carregarDadosFinanceiros host_exemplo (Some ''u1'') carga_marco
             dados_apos_marco))
           = entradas (snd (carregarDadosFinanceiros host_exemplo (Some ''u1'') carga_marco
               dados_apos_marco))
             - saidas (snd (carregarDadosFinanceiros host_exemplo (Some ''u1'') carga_marco
               dados_apos_marco))"
    and b: "snd (carregarDadosFinanceiros host_exemplo (Some ''u1'') carga_marco dados_iniciais)
           = snd (carregarDadosFinanceiros host_exemplo (Some ''u1'') carga_marco
               dados_apos_marco)"
    using t[THEN conjunct1, THEN conjunct2, THEN conjunct1] truthy_u1 f by blast+
  have c: "lucros (carregar_em_sequencia host_exemplo
             [(Some ''u1'', carga_sem_transacoes), (Some ''u1'', carga_sem_planos),
              (None, carga_marco)] dados_iniciais)
           = entradas (carregar_em_sequencia host_exemplo
               [(Some ''u1'', carga_sem_transacoes), (Some ''u1'', carga_sem_planos),
                (None, carga_marco)] dados_iniciais)
             - saidas (carregar_em_sequencia host_exemplo
               [(Some ''u1'', carga_sem_transacoes), (Some ''u1'', carga_sem_planos),
                (None, carga_marco)] dados_iniciais)"
    using t[THEN conjunct2] z by blast
  have p: "lucros dados_apos_marco = entradas dados_apos_marco - saidas dados_apos_marco"
    unfolding dados_apos_marco_def
    using carregar_recalcula(1)[OF truthy_u1 f, of host_exemplo dados_iniciais] .
  have l: "lucros (snd (carregarDadosFinanceiros host_exemplo (Some ''u1'') carga_marco
             dados_apos_marco)) = 749 / 5"
    unfolding a e s by simp
  have l': "lucros (carregar_em_sequencia host_exemplo
             [(Some ''u1'', carga_sem_transacoes), (Some ''u1'', carga_sem_planos),
              (None, carga_marco)] dados_iniciais) = 349 / 5"
    unfolding c e' s' by simp
  show ?thesis
    unfolding Let_def
    by (intro conjI) (rule truthy_u1 f p e s l a b z e' s' l' c)+
qed

text \<open>
  The claim as it stands has the three totals computed again on every load, with no
  state carried over. The same answers, with the select of the plans refused, leave an
  inflow of \<open>0\<close> after the initial state and of \<open>999 / 5\<close> after the state of an earlier
  load; so does a load without a user.
\<close>

theorem C5_contraexemplo:
  "falhou (r_planos carga_sem_planos)
   \<and> entradas (snd (carregarDadosFinanceiros host_exemplo (Some ''u1'') carga_sem_planos
        dados_iniciais)) = 0
   \<and> entradas (snd (carregarDadosFinanceiros host_exemplo (Some ''u1'') carga_sem_planos
        dados_apos_marco)) = 999 / 5
   \<and> entradas (snd (carregarDadosFinanceiros host_exemplo None carga_marco dados_iniciais)) = 0
   \<and> entradas (snd (carregarDadosFinanceiros host_exemplo None carga_marco dados_apos_marco))
       = 999 / 5"
proof -
  have f: "falhou (r_planos carga_sem_planos)"
    by (simp add: carga_sem_planos_def falhou_def)
  have a: "entradas (snd (carregarDadosFinanceiros host_exemplo (Some ''u1'') carga_sem_planos
             dados_iniciais)) = 0"
    by code_simp
  have b: "entradas (snd (carregarDadosFinanceiros host_exemplo (Some ''u1'') carga_sem_planos
             dados_apos_marco)) = 999 / 5"
    by code_simp
  have c: "entradas (snd (carregarDadosFinanceiros host_exemplo None carga_marco
             dados_iniciais)) = 0"
    by code_simp
  have d: "entradas (snd (carregarDadosFinanceiros host_exemplo None carga_marco
             dados_apos_marco)) = 999 / 5"
    by code_simp
  show ?thesis by (intro conjI) (rule f a b c d)+
qed

text \<open>
  The two totals of a load are the sums of the amounts of the entries it built, derived
  and custom alike, each entry counted once on the side of its direction.
\<close>

lemma totais_plano: "totais_conferem a \<Longrightarrow> totais_conferem (processar_plano h m c a)"
  by (simp add: totais_conferem_def processar_plano_def split: option.splits)

lemma totais_produto: "totais_conferem a \<Longrightarrow> totais_conferem (processar_produto h m c a)"
  by (simp add: totais_conferem_def processar_produto_def split: option.splits)

lemma totais_customizada: "totais_conferem a \<Longrightarrow> totais_conferem (processar_customizada h a t)"
  by (simp add: totais_conferem_def processar_customizada_def Let_def split: option.splits)

lemma totais_clientes:
  "totais_conferem (foldl (processar_cliente h mp mpr)
      \<lparr>totalEntradas = 0, totalSaidas = 0, lista = []\<rparr> cs)"
proof (rule invariante_foldl[where P = totais_conferem])
  show "totais_conferem (processar_cliente h mp mpr a x)" if "totais_conferem a" for a x
    using that by (simp add: processar_cliente_def totais_plano totais_produto)
  show "totais_conferem \<lparr>totalEntradas = 0, totalSaidas = 0, lista = []\<rparr>"
    by (simp add: totais_conferem_def)
qed

lemma totais_acumular: "totais_conferem (acumular h cs ps prs ts)"
  unfolding acumular_def
  by (rule invariante_foldl[where P = totais_conferem], rule totais_customizada, assumption,
      rule totais_clientes)

subsection \<open>A failed source\<close>

text \<open>
  C8. When the select of the customers, of the plans or of the products fails (it rejects,
  or it resolves with an error), the load ends in its \<open>catch\<close>: the error message is the
  fixed text \<open>mensagem_carga\<close>, the loading flag is cleared, and the three totals and the
  list of entries are those of the previous state.
\<close>

theorem C8_falha_de_fonte:
  assumes "truthy userId"
    and "falhou (r_clientes r) \<or> falhou (r_planos r) \<or> falhou (r_produtos r)"
  shows "(let d = snd (carregarDadosFinanceiros h userId r prev)
          in error d = Some mensagem_carga \<and> loading d = False
             \<and> entradas d = entradas prev \<and> saidas d = saidas prev \<and> lucros d = lucros prev
             \<and> transacoes d = transacoes prev)"
  using carregar_falha[OF assms, of h prev] by (simp add: carga_falhou_def Let_def)

theorem C8_falha_de_fonte_witness:
  "truthy (Some ''u1'') \<and> falhou (r_planos carga_sem_planos)
   \<and> (let d = snd (carregarDadosFinanceiros host_exemplo (Some ''u1'') carga_sem_planos
                dados_anteriores)
      in error d = Some ''Erro ao carregar dados financeiros'' \<and> loading d = False
         \<and> entradas d = 7 \<and> saidas d = 2 \<and> lucros d = 5 \<and> transacoes d = [])"
proof -
  have f: "falhou (r_planos carga_sem_planos)"
    by (simp add: carga_sem_planos_def falhou_def)
  then have g: "falhou (r_clientes carga_sem_planos) \<or> falhou (r_planos carga_sem_planos)
                 \<or> falhou (r_produtos carga_sem_planos)"
    by simp
  from C8_falha_de_fonte[OF truthy_u1 g, of host_exemplo dados_anteriores] truthy_u1 f
  show ?thesis by (simp add: Let_def mensagem_carga_def dados_anteriores_def)
qed

subsection \<open>A failed select of the custom transactions\<close>

text \<open>
  C9. When the three sources answered and the select of \<open>transacoes\<close> fails (it rejects,
  or it resolves with an error), the load does not fail: it sets the state that the same
  load sets when the relation answers with no row, computed from the customers, plans and
  products alone, with no error message and the loading flag cleared.
\<close>

theorem C9_transacoes_indisponiveis:
  assumes "truthy userId"
    and "r_clientes r = Resolvida (Inr cs)" and "r_planos r = Resolvida (Inr ps)"
    and "r_produtos r = Resolvida (Inr prs)"
    and "falhou (r_transacoes r)"
  shows "(let d = snd (carregarDadosFinanceiros h userId r prev)
          in d = montar h cs ps prs []
             \<and> d = snd (carregarDadosFinanceiros h userId (r\<lparr>r_transacoes := Resolvida (Inr [])\<rparr>) prev)
             \<and> error d = None \<and> loading d = False)"
proof -
  have v: "dados_ou_vazio (r_transacoes r) = []"
    using falhou_casos[OF assms(5)] by (auto simp: dados_ou_vazio_def)
  have a: "snd (carregarDadosFinanceiros h userId r prev) = montar h cs ps prs []"
    using carregar_sucesso[OF assms(1-4), of h prev] v by simp
  have b: "snd (carregarDadosFinanceiros h userId (r\<lparr>r_transacoes := Resolvida (Inr [])\<rparr>) prev)
             = montar h cs ps prs []"
    using carregar_sucesso[of userId "r\<lparr>r_transacoes := Resolvida (Inr [])\<rparr>" cs ps prs h prev]
      assms(1-4) by (simp add: dados_ou_vazio_def)
  show ?thesis
    unfolding Let_def a b by (simp add: montar_def Let_def)
qed

theorem C9_transacoes_indisponiveis_witness:
  "truthy (Some ''u1'') \<and> falhou (r_transacoes carga_sem_transacoes)
   \<and> (let d = snd (carregarDadosFinanceiros host_exemplo (Some ''u1'') carga_sem_transacoes
                dados_anteriores)
      in d = montar host_exemplo clientes_marco planos_exemplo produtos_exemplo []
         \<and> entradas d = 499 / 5 \<and> saidas d = 30 \<and> lucros d = 349 / 5
         \<and> map tf_id (transacoes d) = [''entrada-c'', ''entrada-a'', ''saida-a'']
         \<and> error d = None \<and> loading d = False)"
proof -
  have f: "falhou (r_transacoes carga_sem_transacoes)"
    by (simp add: carga_sem_transacoes_def carga_exemplo_def falhou_def)
  have r: "r_clientes carga_sem_transacoes = Resolvida (Inr clientes_marco)"
    "r_planos carga_sem_transacoes = Resolvida (Inr planos_exemplo)"
    "r_produtos carga_sem_transacoes = Resolvida (Inr produtos_exemplo)"
    by (simp_all add: carga_sem_transacoes_def carga_exemplo_def)
  have e: "entradas (montar host_exemplo clientes_marco planos_exemplo produtos_exemplo [])
             = 499 / 5"
    by code_simp
  have s: "saidas (montar host_exemplo clientes_marco planos_exemplo produtos_exemplo []) = 30"
    by code_simp
  have i: "map tf_id (transacoes (montar host_exemplo clientes_marco planos_exemplo
             produtos_exemplo [])) = [''entrada-c'', ''entrada-a'', ''saida-a'']"
    by code_simp
  note t = C9_transacoes_indisponiveis[OF truthy_u1 r f, of host_exemplo dados_anteriores,
      unfolded Let_def]
  from t have d: "snd (carregarDadosFinanceiros host_exemplo (Some ''u1'') carga_sem_transacoes
      dados_anteriores) = montar host_exemplo clientes_marco planos_exemplo produtos_exemplo []"
    by (rule conjunct1)
  have l: "error (montar host_exemplo clientes_marco planos_exemplo produtos_exemplo []) = None
    \<and> loading (montar host_exemplo clientes_marco planos_exemplo produtos_exemplo []) = False"
    using t[THEN conjunct2, THEN conjunct2] unfolding d .
  have m: "lucros (montar host_exemplo clientes_marco planos_exemplo produtos_exemplo [])
             = 349 / 5"
    unfolding montar_lucros e s by simp
  show ?thesis
    unfolding Let_def d using truthy_u1 f e s i l m by simp
qed

subsection \<open>Amounts that do not parse\<close>

lemma processar_customizada_nan:
  "parseFloat h (t_valor t) = None \<Longrightarrow> processar_customizada h a t = a"
  by (simp add: processar_customizada_def)

lemma processar_plano_nan:
  "planosMap (c_plano c) = Some pl \<Longrightarrow> valor_de h (p_valor pl) = None
     \<Longrightarrow> processar_plano h planosMap c a = a"
  by (simp add: processar_plano_def)

lemma processar_produto_nan:
  "produtosMap (c_produto c) = Some pr \<Longrightarrow> valor_de h (pr_valor pr) = None
     \<Longrightarrow> processar_produto h produtosMap c a = a"
  by (simp add: processar_produto_def)

lemma foldl_filter_neutro:
  "(\<And>a x. x \<in> set xs \<Longrightarrow> \<not> P x \<Longrightarrow> f a x = a) \<Longrightarrow> foldl f a (filter P xs) = foldl f a xs"
  by (induction xs arbitrary: a) auto

lemma foldl_map_igual:
  "(\<And>a x. x \<in> set xs \<Longrightarrow> f a (g x) = f a x) \<Longrightarrow> foldl f a (map g xs) = foldl f a xs"
  by (induction xs arbitrary: a) auto

lemma processar_plano_sem_ref:
  "processar_plano h (Map_de p_id ps) (sem_referencias_invalidas h ps prs c) a
     = processar_plano h (Map_de p_id ps) c a"
  by (auto simp: processar_plano_def sem_referencias_invalidas_def plano_sem_valor_def
      data_cliente_def truthy_def split: option.splits)

lemma processar_produto_sem_ref:
  "processar_produto h (Map_de pr_id prs) (sem_referencias_invalidas h ps prs c) a
     = processar_produto h (Map_de pr_id prs) c a"
  by (auto simp: processar_produto_def sem_referencias_invalidas_def produto_sem_valor_def
      data_cliente_def truthy_def split: option.splits)

lemma processar_cliente_sem_ref:
  "processar_cliente h (Map_de p_id ps) (Map_de pr_id prs) a (sem_referencias_invalidas h ps prs c)
     = processar_cliente h (Map_de p_id ps) (Map_de pr_id prs) a c"
  by (simp add: processar_cliente_def processar_plano_sem_ref processar_produto_sem_ref)

lemma acumular_sem_invalidos:
  "acumular h (map (sem_referencias_invalidas h ps prs) cs) ps prs
       (filter (valor_parseia h) ts)
     = acumular h cs ps prs ts"
  unfolding acumular_def
  by (subst foldl_filter_neutro,
      simp add: processar_customizada_nan valor_parseia_def split: option.splits,
      subst foldl_map_igual, simp add: processar_cliente_sem_ref, rule refl)

lemma montar_sem_invalidos:
  "montar h (map (sem_referencias_invalidas h ps prs) cs) ps prs
       (filter (valor_parseia h) ts)
     = montar h cs ps prs ts"
  by (simp only: montar_def acumular_sem_invalidos)

text \<open>
  C6. A plan or a product whose price does not parse, and a custom transaction whose
  amount does not parse, leave the accumulator as it is: no entry is pushed and neither
  total changes. A load whose three sources answered therefore sets the very state it
  sets when every reference to such a plan or product is dropped from the customers and
  every such row is removed from the custom transactions, and it sets no error message.
\<close>

theorem C6_valores_invalidos_ignorados:
  "(planosMap (c_plano c) = Some pl \<and> valor_de h (p_valor pl) = None
      \<longrightarrow> processar_plano h planosMap c a = a)
   \<and> (produtosMap (c_produto c) = Some pr \<and> valor_de h (pr_valor pr) = None
      \<longrightarrow> processar_produto h produtosMap c a = a)
   \<and> (parseFloat h (t_valor t) = None \<longrightarrow> processar_customizada h a t = a)
   \<and> (truthy userId \<and> r_clientes r = Resolvida (Inr cs) \<and> r_planos r = Resolvida (Inr ps)
       \<and> r_produtos r = Resolvida (Inr prs) \<longrightarrow>
        (let d = snd (carregarDadosFinanceiros h userId r prev)
         in d = montar h (map (sem_referencias_invalidas h ps prs) cs) ps prs
                  (filter (valor_parseia h) (dados_ou_vazio (r_transacoes r)))
            \<and> error d = None))"
proof -
  have "snd (carregarDadosFinanceiros h userId r prev)
          = montar h (map (sem_referencias_invalidas h ps prs) cs) ps prs
              (filter (valor_parseia h) (dados_ou_vazio (r_transacoes r)))
        \<and> error (snd (carregarDadosFinanceiros h userId r prev)) = None"
    if "truthy userId" "r_clientes r = Resolvida (Inr cs)" "r_planos r = Resolvida (Inr ps)"
      "r_produtos r = Resolvida (Inr prs)"
  proof -
    have d: "snd (carregarDadosFinanceiros h userId r prev)
               = montar h cs ps prs (dados_ou_vazio (r_transacoes r))"
      using carregar_sucesso[OF that, of h prev] by simp
    have "error (montar h cs ps prs (dados_ou_vazio (r_transacoes r))) = None"
      by (simp add: montar_def Let_def)
    then show ?thesis
      unfolding d montar_sem_invalidos by (rule conjI[OF refl])
  qed
  then have "truthy userId \<and> r_clientes r = Resolvida (Inr cs) \<and> r_planos r = Resolvida (Inr ps)
       \<and> r_produtos r = Resolvida (Inr prs) \<longrightarrow>
        (let d = snd (carregarDadosFinanceiros h userId r prev)
         in d = montar h (map (sem_referencias_invalidas h ps prs) cs) ps prs
                  (filter (valor_parseia h) (dados_ou_vazio (r_transacoes r)))
            \<and> error d = None)"
    unfolding Let_def by blast
  moreover have "planosMap (c_plano c) = Some pl \<and> valor_de h (p_valor pl) = None
      \<longrightarrow> processar_plano h planosMap c a = a"
    by (simp add: processar_plano_nan)
  moreover have "produtosMap (c_produto c) = Some pr \<and> valor_de h (pr_valor pr) = None
      \<longrightarrow> processar_produto h produtosMap c a = a"
    by (simp add: processar_produto_nan)
  moreover have "parseFloat h (t_valor t) = None \<longrightarrow> processar_customizada h a t = a"
    by (simp add: processar_customizada_nan)
  ultimately show ?thesis by blast
qed

theorem C6_valores_invalidos_ignorados_witness:
  "valor_de host_exemplo ''R$ abc'' = None
   \<and> processar_plano host_exemplo (Map_de p_id planos_exemplo)
        (cliente_exemplo ''b'' ''2024-03-05T09:00:00+00:00'' (Some ''p2'') (Some ''x2''))
        acumulado_exemplo = acumulado_exemplo
   \<and> processar_customizada host_exemplo acumulado_exemplo transacao_sem_valor = acumulado_exemplo
   \<and> (let d = snd (carregarDadosFinanceiros host_exemplo (Some ''u1'') carga_marco dados_anteriores)
      in d = snd (carregarDadosFinanceiros host_exemplo (Some ''u1'') carga_marco_limpa
                 dados_anteriores)
         \<and> map tf_id (transacoes d) = [''entrada-c'', ''t1'', ''entrada-a'', ''saida-a'', ''t3'']
         \<and> entradas d = 999 / 5 \<and> saidas d = 50 \<and> error d = None)"
proof -
  let ?b = "cliente_exemplo ''b'' ''2024-03-05T09:00:00+00:00'' (Some ''p2'') (Some ''x2'')"
  let ?p2 = "\<lparr>p_id = Some ''p2'', p_nome = ''Anual'', p_valor = ''R$ abc''\<rparr>"
  have v: "valor_de host_exemplo ''R$ abc'' = None" by code_simp
  have m: "Map_de p_id planos_exemplo (c_plano ?b) = Some ?p2" by code_simp
  have n: "parseFloat host_exemplo (t_valor transacao_sem_valor) = None" by code_simp
  have r: "r_clientes carga_marco = Resolvida (Inr clientes_marco)"
    "r_planos carga_marco = Resolvida (Inr planos_exemplo)"
    "r_produtos carga_marco = Resolvida (Inr produtos_exemplo)"
    "dados_ou_vazio (r_transacoes carga_marco) = transacoes_exemplo"
    by (simp_all add: carga_marco_def carga_exemplo_def dados_ou_vazio_def)
  have l: "r_clientes carga_marco_limpa = Resolvida (Inr
             (map (sem_referencias_invalidas host_exemplo planos_exemplo produtos_exemplo)
                clientes_marco))"
    "r_planos carga_marco_limpa = Resolvida (Inr planos_exemplo)"
    "r_produtos carga_marco_limpa = Resolvida (Inr produtos_exemplo)"
    "dados_ou_vazio (r_transacoes carga_marco_limpa)
       = filter (valor_parseia host_exemplo) transacoes_exemplo"
    by code_simp+
  note t = C6_valores_invalidos_ignorados[where h = host_exemplo and userId = "Some ''u1''"
      and r = carga_marco and prev = dados_anteriores and cs = clientes_marco
      and ps = planos_exemplo and prs = produtos_exemplo and planosMap = "Map_de p_id planos_exemplo"
      and c = ?b and pl = ?p2 and a = acumulado_exemplo and t = transacao_sem_valor,
      unfolded Let_def r]
  have p: "processar_plano host_exemplo (Map_de p_id planos_exemplo) ?b acumulado_exemplo
             = acumulado_exemplo"
    using t[THEN conjunct1] m v by simp
  have c: "processar_customizada host_exemplo acumulado_exemplo transacao_sem_valor
             = acumulado_exemplo"
    using t[THEN conjunct2, THEN conjunct2, THEN conjunct1] n by simp
  have d: "snd (carregarDadosFinanceiros host_exemplo (Some ''u1'') carga_marco dados_anteriores)
             = snd (carregarDadosFinanceiros host_exemplo (Some ''u1'') carga_marco_limpa
                 dados_anteriores)
           \<and> error (snd (carregarDadosFinanceiros host_exemplo (Some ''u1'') carga_marco
                 dados_anteriores)) = None"
  proof -
    have x: "snd (carregarDadosFinanceiros host_exemplo (Some ''u1'') carga_marco_limpa
               dados_anteriores)
             = montar host_exemplo
                 (map (sem_referencias_invalidas host_exemplo planos_exemplo produtos_exemplo)
                    clientes_marco)
                 planos_exemplo produtos_exemplo
                 (filter (valor_parseia host_exemplo) transacoes_exemplo)"
      using carregar_sucesso[OF truthy_u1 l(1-3), of host_exemplo dados_anteriores]
      unfolding l(4) by simp
    show ?thesis
      unfolding x using t[THEN conjunct2, THEN conjunct2, THEN conjunct2] truthy_u1 by blast
  qed
  have i: "map tf_id (transacoes (snd (carregarDadosFinanceiros host_exemplo (Some ''u1'')
             carga_marco dados_anteriores)))
           = [''entrada-c'', ''t1'', ''entrada-a'', ''saida-a'', ''t3'']"
    by code_simp
  have e: "entradas (snd (carregarDadosFinanceiros host_exemplo (Some ''u1'') carga_marco
             dados_anteriores)) = 999 / 5"
    by code_simp
  have s: "saidas (snd (carregarDadosFinanceiros host_exemplo (Some ''u1'') carga_marco
             dados_anteriores)) = 50"
    by code_simp
  show ?thesis
    unfolding Let_def
    by (intro conjI) (rule v p c d[THEN conjunct1] d[THEN conjunct2] i e s)+
qed

subsection \<open>The description of a custom transaction\<close>

lemma split_str_nao_vazio: "split_str sep s \<noteq> []"
  by (induction s) (auto split: list.splits)

lemma split_str_sem_sep: "sep \<notin> set l \<Longrightarrow> split_str sep l = [l]"
  by (induction l) auto

lemma split_str_linha: "sep \<notin> set l \<Longrightarrow> split_str sep (l @ sep # s) = l # split_str sep s"
  by (induction l) (auto split: list.splits)

lemma split_join:
  "\<forall>x \<in> set (l # ls). sep \<notin> set x \<Longrightarrow> split_str sep (join_str [sep] (l # ls)) = l # ls"
proof (induction ls arbitrary: l)
  case Nil
  then show ?case by (simp add: split_str_sem_sep)
next
  case (Cons m ms)
  then show ?case by (simp add: split_str_linha)
qed

text \<open>Every string is its lines joined by the separator, and no line holds the separator.\<close>

lemma linhas_sem_sep: "\<forall>x \<in> set (split_str sep s). sep \<notin> set x"
  by (induction s) (auto split: list.splits)

lemma join_split: "join_str [sep] (split_str sep s) = s"
proof (induction s)
  case Nil
  then show ?case by simp
next
  case (Cons c s)
  show ?case
  proof (cases "c = sep")
    case True
    then show ?thesis using Cons split_str_nao_vazio[of sep s]
      by (cases "split_str sep s") auto
  next
    case False
    then show ?thesis using Cons split_str_nao_vazio[of sep s]
      by (cases "split_str sep s"; cases "tl (split_str sep s)") auto
  qed
qed

lemma cliente_da_descricao_linhas:
  assumes "\<forall>x \<in> set (l # ls). CHR 0x0A \<notin> set x"
  shows "cliente_da_descricao (join_str [CHR 0x0A] (l # ls))
           = (if l = [] then rotulo_customizada else l)"
  unfolding cliente_da_descricao_def split_join[OF assms] by simp

lemma detalhe_da_descricao_linhas:
  assumes "\<forall>x \<in> set (l # ls). CHR 0x0A \<notin> set x"
  shows "detalhe_da_descricao (join_str [CHR 0x0A] (l # ls))
           = (if join_str '' '' ls = [] then rotulo_sem_detalhes else join_str '' '' ls)"
  unfolding detalhe_da_descricao_def split_join[OF assms] by (simp add: Let_def)

text \<open>
  C7. For a custom transaction whose amount parses and whose description consists of the
  lines \<open>l # ls\<close> separated by line feeds, the entry pushed has the first line \<open>l\<close> as its
  counterparty, or the label of line 164 (\<open>Transa\<close>, c with cedilla, a with tilde, \<open>o customizada\<close>) when \<open>l\<close> is empty, and the
  remaining lines joined by single spaces as its detail value, or the label
  \<open>Sem detalhes\<close> when that is empty; the entry keeps the description as it was.
\<close>

theorem C7_descricao_em_linhas:
  assumes "parseFloat h (t_valor t) = Some v"
    and "t_descricao t = join_str [CHR 0x0A] (l # ls)"
    and "\<forall>x \<in> set (l # ls). CHR 0x0A \<notin> set x"
  shows "\<exists>e. lista (processar_customizada h a t) = lista a @ [e]
            \<and> tf_cliente e
                = (if l = [] then ''Transa'' @ [CHR 0xE7, CHR 0xE3] @ ''o customizada'' else l)
            \<and> tf_detalheValor e
                = (if join_str '' '' ls = [] then ''Sem detalhes'' else join_str '' '' ls)
            \<and> tf_detalheTitulo e = ''Customizada''
            \<and> tf_descricao e = Some (t_descricao t)"
  using assms(1)
  by (simp add: processar_customizada_def Let_def assms(2)
      cliente_da_descricao_linhas[OF assms(3)] detalhe_da_descricao_linhas[OF assms(3)]
      rotulo_customizada_def rotulo_sem_detalhes_def)

theorem C7_descricao_em_linhas_witness:
  "parseFloat host_exemplo (t_valor transacao_alice) = Some 100
   \<and> t_descricao transacao_alice
       = join_str [CHR 0x0A] [''Alice'', ''monthly fee'', ''via card'']
   \<and> map tf_cliente (lista (processar_customizada host_exemplo acumulado_exemplo
        transacao_alice)) = [''Alice'']
   \<and> map tf_detalheValor (lista (processar_customizada host_exemplo acumulado_exemplo
        transacao_alice)) = [''monthly fee via card'']
   \<and> parseFloat host_exemplo (t_valor transacao_sem_tipo) = Some 20
   \<and> t_descricao transacao_sem_tipo = join_str [CHR 0x0A] [[]]
   \<and> map tf_cliente (lista (processar_customizada host_exemplo acumulado_exemplo
        transacao_sem_tipo))
       = [[CHR ''T'', CHR ''r'', CHR ''a'', CHR ''n'', CHR ''s'', CHR ''a'', CHR 0xE7, CHR 0xE3,
           CHR ''o'', CHR '' '', CHR ''c'', CHR ''u'', CHR ''s'', CHR ''t'', CHR ''o'', CHR ''m'',
           CHR ''i'', CHR ''z'', CHR ''a'', CHR ''d'', CHR ''a'']]
   \<and> map tf_detalheValor (lista (processar_customizada host_exemplo acumulado_exemplo
        transacao_sem_tipo)) = [''Sem detalhes'']
   \<and> parseFloat host_exemplo (t_valor transacao_bob) = Some 30
   \<and> t_descricao transacao_bob = join_str [CHR 0x0A] [''Bob'']
   \<and> map tf_cliente (lista (processar_customizada host_exemplo acumulado_exemplo
        transacao_bob)) = [''Bob'']
   \<and> map tf_detalheValor (lista (processar_customizada host_exemplo acumulado_exemplo
        transacao_bob)) = [''Sem detalhes'']"
proof -
  have a: "lista acumulado_exemplo = []" by (simp add: acumulado_exemplo_def)
  have v1: "parseFloat host_exemplo (t_valor transacao_alice) = Some 100" by code_simp
  have d1: "t_descricao transacao_alice
              = join_str [CHR 0x0A] (''Alice'' # [''monthly fee'', ''via card''])"
    by (simp add: transacao_alice_def)
  have n1: "\<forall>x \<in> set (''Alice'' # [''monthly fee'', ''via card'']). CHR 0x0A \<notin> set x"
    by simp
  have v2: "parseFloat host_exemplo (t_valor transacao_sem_tipo) = Some 20" by code_simp
  have d2: "t_descricao transacao_sem_tipo = join_str [CHR 0x0A] ([] # [])"
    by (simp add: transacao_sem_tipo_def)
  have n2: "\<forall>x \<in> set (([]::string) # []). CHR 0x0A \<notin> set x"
    by simp
  have v3: "parseFloat host_exemplo (t_valor transacao_bob) = Some 30" by code_simp
  have d3: "t_descricao transacao_bob = join_str [CHR 0x0A] (''Bob'' # [])"
    by (simp add: transacao_bob_def)
  have n3: "\<forall>x \<in> set (''Bob'' # []). CHR 0x0A \<notin> set x"
    by simp
  from C7_descricao_em_linhas[OF v1 d1 n1, of acumulado_exemplo]
  have r1: "map tf_cliente (lista (processar_customizada host_exemplo acumulado_exemplo
              transacao_alice)) = [''Alice'']
            \<and> map tf_detalheValor (lista (processar_customizada host_exemplo acumulado_exemplo
              transacao_alice)) = [''monthly fee via card'']"
    unfolding a by auto
  from C7_descricao_em_linhas[OF v2 d2 n2, of acumulado_exemplo]
  have r2: "map tf_cliente (lista (processar_customizada host_exemplo acumulado_exemplo
              transacao_sem_tipo))
              = [[CHR ''T'', CHR ''r'', CHR ''a'', CHR ''n'', CHR ''s'', CHR ''a'', CHR 0xE7,
                  CHR 0xE3, CHR ''o'', CHR '' '', CHR ''c'', CHR ''u'', CHR ''s'', CHR ''t'',
                  CHR ''o'', CHR ''m'', CHR ''i'', CHR ''z'', CHR ''a'', CHR ''d'', CHR ''a'']]
            \<and> map tf_detalheValor (lista (processar_customizada host_exemplo acumulado_exemplo
              transacao_sem_tipo)) = [''Sem detalhes'']"
    unfolding a by auto
  from C7_descricao_em_linhas[OF v3 d3 n3, of acumulado_exemplo]
  have r3: "map tf_cliente (lista (processar_customizada host_exemplo acumulado_exemplo
              transacao_bob)) = [''Bob'']
            \<and> map tf_detalheValor (lista (processar_customizada host_exemplo acumulado_exemplo
              transacao_bob)) = [''Sem detalhes'']"
    unfolding a by auto
  from v1 d1 r1 v2 d2 r2 v3 d3 r3 show ?thesis by simp
qed

subsection \<open>The direction of a custom transaction\<close>

lemma acumular_snoc:
  "acumular h cs ps prs (ts @ [t]) = processar_customizada h (acumular h cs ps prs ts) t"
  by (simp add: acumular_def)

text \<open>
  C10. A custom transaction whose amount parses to \<open>v\<close> and whose direction is anything
  but the string \<open>entrada\<close>, a missing direction included, adds \<open>v\<close> to the total outflow
  and leaves the total inflow alone, and the entry pushed carries the direction as it was
  stored. So the load of the rows \<open>ts @ [t]\<close> reports the outflow of the load of \<open>ts\<close>
  plus \<open>v\<close>, and the same inflow.
\<close>

theorem C10_tipo_nao_validado:
  assumes "parseFloat h (t_valor t) = Some v" and "t_tipo t \<noteq> Some ''entrada''"
  shows "(let a' = processar_customizada h a t
          in totalSaidas a' = totalSaidas a + v \<and> totalEntradas a' = totalEntradas a
             \<and> (\<exists>e. lista a' = lista a @ [e] \<and> tf_tipo e = t_tipo t \<and> tf_valor e = v
                    \<and> tf_id e = t_id t))
         \<and> saidas (montar h cs ps prs (ts @ [t])) = saidas (montar h cs ps prs ts) + v
         \<and> entradas (montar h cs ps prs (ts @ [t])) = entradas (montar h cs ps prs ts)"
  using assms by (simp add: montar_def Let_def acumular_snoc processar_customizada_def)

theorem C10_tipo_nao_validado_witness:
  "parseFloat host_exemplo (t_valor transacao_sem_tipo) = Some 20
   \<and> t_tipo transacao_sem_tipo = None
   \<and> totalSaidas (processar_customizada host_exemplo acumulado_exemplo transacao_sem_tipo) = 22
   \<and> totalEntradas (processar_customizada host_exemplo acumulado_exemplo transacao_sem_tipo) = 7
   \<and> map tf_tipo (lista (processar_customizada host_exemplo acumulado_exemplo transacao_sem_tipo))
       = [None]
   \<and> saidas (montar host_exemplo clientes_marco planos_exemplo produtos_exemplo
        ([transacao_alice] @ [transacao_sem_tipo])) = 50"
proof -
  have v: "parseFloat host_exemplo (t_valor transacao_sem_tipo) = Some 20" by code_simp
  have n: "t_tipo transacao_sem_tipo = None" by (simp add: transacao_sem_tipo_def)
  then have d: "t_tipo transacao_sem_tipo \<noteq> Some ''entrada''" by simp
  have a: "totalSaidas acumulado_exemplo = 2" "totalEntradas acumulado_exemplo = 7"
    "lista acumulado_exemplo = []"
    by (simp_all add: acumulado_exemplo_def)
  have s: "saidas (montar host_exemplo clientes_marco planos_exemplo produtos_exemplo
             [transacao_alice]) = 30"
    by code_simp
  note t = C10_tipo_nao_validado[OF v d, of acumulado_exemplo clientes_marco planos_exemplo
      produtos_exemplo "[transacao_alice]", unfolded Let_def a s n]
  from t v n show ?thesis by auto
qed

subsection \<open>The order of the entries\<close>

lemma inserir_na_frente: "(ys \<noteq> [] \<Longrightarrow> cmp x (hd ys) \<le> 0) \<Longrightarrow> inserir cmp x ys = x # ys"
  by (cases ys) auto

lemma Array_sort_Cons: "Array_sort c (x # xs) = inserir (SortCompare c) x (Array_sort c xs)"
  by (simp add: Array_sort_def)

text \<open>When no display string is read back as a date, the list keeps its order.\<close>

lemma Array_sort_sem_chaves:
  "\<forall>e \<in> set es. chave_data h e = None \<Longrightarrow> Array_sort (comparar_datas h) es = es"
proof (induction es)
  case Nil
  then show ?case by (simp add: Array_sort_def)
next
  case (Cons e es)
  then have "Array_sort (comparar_datas h) es = es" by simp
  moreover have "inserir (SortCompare (comparar_datas h)) e es = e # es"
    using Cons.prems by (intro inserir_na_frente) (simp add: SortCompare_def comparar_datas_def)
  ultimately show ?case by (simp add: Array_sort_Cons)
qed

lemma inserir_insort:
  assumes "chave_data h x \<noteq> None" and "\<forall>y \<in> set ys. chave_data h y \<noteq> None"
  shows "inserir (SortCompare (comparar_datas h)) x ys
           = insort_key (\<lambda>e. - the (chave_data h e)) x ys"
  using assms by (induction ys) (auto simp: SortCompare_def comparar_datas_def)

lemma Array_sort_sort_key:
  "\<forall>e \<in> set es. chave_data h e \<noteq> None \<Longrightarrow>
     Array_sort (comparar_datas h) es = sort_key (\<lambda>e. - the (chave_data h e)) es"
proof (induction es)
  case Nil
  then show ?case by (simp add: Array_sort_def)
next
  case (Cons e es)
  then have ih: "Array_sort (comparar_datas h) es = sort_key (\<lambda>e. - the (chave_data h e)) es"
    by simp
  have "\<forall>y \<in> set (sort_key (\<lambda>e. - the (chave_data h e)) es). chave_data h y \<noteq> None"
    using Cons.prems by simp
  with Cons.prems show ?case
    by (simp add: Array_sort_Cons ih inserir_insort)
qed

text \<open>
  When every display string is read back as a date, the list returned holds the same
  entries, in descending order of the time values read back, and entries with one time
  value keep their relative order.
\<close>

lemma Array_sort_estavel_decrescente:
  assumes "\<forall>e \<in> set es. chave_data h e \<noteq> None"
  shows "sorted_wrt (\<lambda>a b. the (chave_data h b) \<le> the (chave_data h a))
           (Array_sort (comparar_datas h) es)
         \<and> mset (Array_sort (comparar_datas h) es) = mset es
         \<and> (\<forall>k. filter (\<lambda>e. chave_data h e = Some k) (Array_sort (comparar_datas h) es)
                  = filter (\<lambda>e. chave_data h e = Some k) es)"
proof -
  let ?f = "\<lambda>e. - the (chave_data h e)"
  have eq: "Array_sort (comparar_datas h) es = sort_key ?f es"
    by (rule Array_sort_sort_key[OF assms])
  have "sorted (map ?f (sort_key ?f es))" by (rule sorted_sort_key)
  then have s: "sorted_wrt (\<lambda>a b. the (chave_data h b) \<le> the (chave_data h a)) (sort_key ?f es)"
    by (simp add: sorted_map)
  have st: "filter (\<lambda>e. chave_data h e = Some k) (sort_key ?f es)
              = filter (\<lambda>e. chave_data h e = Some k) es" for k
  proof -
    have "filter (\<lambda>e. chave_data h e = Some k) (sort_key ?f es)
            = filter (\<lambda>e. ?f e = - k) (sort_key ?f es)"
      using assms by (intro filter_cong) auto
    also have "\<dots> = filter (\<lambda>e. ?f e = - k) es" by (rule sort_key_stable)
    also have "\<dots> = filter (\<lambda>e. chave_data h e = Some k) es"
      using assms by (intro filter_cong) auto
    finally show ?thesis .
  qed
  show ?thesis unfolding eq using s st by simp
qed

text \<open>
  Customers created on 5 March 2024 at 10:00, 09:00 and 11:00: the host reads
  \<open>05/03/2024\<close> back as the third of May, every comparison is a number, and the entries
  come out latest first.
\<close>

lemma ordem_marco:
  "map tf_data (transacoes (snd (carregarDadosFinanceiros host_exemplo (Some ''u1'')
       (carga_exemplo (clientes_do_dia ''2024-03-05'') (Resolvida (Inr []))) dados_anteriores)))
     = [''05/03/2024, 11:00:00'', ''05/03/2024, 10:00:00'', ''05/03/2024, 09:00:00'']"
  by code_simp

text \<open>
  A customer created on 1 February 2024 and one created on 2 January 2024: the host reads
  the display strings back as 2 January and as 1 February, every comparison is a number,
  and the entry of January comes out before the entry of February.
\<close>

lemma ordem_dois_meses:
  "map tf_id (transacoes (snd (carregarDadosFinanceiros host_exemplo (Some ''u1'')
       (carga_exemplo clientes_dois_meses (Resolvida (Inr []))) dados_anteriores)))
     = [''entrada-j'', ''entrada-f'']
   \<and> map tf_data (transacoes (snd (carregarDadosFinanceiros host_exemplo (Some ''u1'')
       (carga_exemplo clientes_dois_meses (Resolvida (Inr []))) dados_anteriores)))
     = [''02/01/2024, 08:00:00'', ''01/02/2024, 08:00:00'']"
  by code_simp

text \<open>
  C1. The entries of a load are to be the derived and the custom entries in descending
  order of their display timestamps, entries at 10:00, 09:00 and 11:00 coming out as
  11:00, 10:00, 09:00. Evaluated on three customers created on 15 January 2024 at 10:00, at
  09:00 and at 11:00, the load returns the entries in the order 10:00, 09:00, 11:00. The
  comparator reads the display string \<open>15/01/2024, 10:00:00\<close> back with \<open>new Date\<close>; the
  host takes the first number for the month and yields no date, each difference of time
  values is \<open>NaN\<close>, the sort takes every pair for equal, and the list keeps the order in
  which it was built.
\<close>

theorem C1_ordem_janeiro:
  "map tf_data (transacoes (snd (carregarDadosFinanceiros host_exemplo (Some ''u1'')
       carga_janeiro dados_anteriores)))
     = [''15/01/2024, 10:00:00'', ''15/01/2024, 09:00:00'', ''15/01/2024, 11:00:00'']
   \<and> map (chave_data host_exemplo) (transacoes (snd (carregarDadosFinanceiros host_exemplo
       (Some ''u1'') carga_janeiro dados_anteriores))) = [None, None, None]"
  by code_simp

section \<open>Properties of the writes\<close>

subsection \<open>The calls of a save\<close>

lemma carregar_sem_escrita:
  "contar_invoke (fst (carregarDadosFinanceiros h userId r prev)) = 0
   \<and> contar_insert (fst (carregarDadosFinanceiros h userId r prev)) = 0"
  using carregar_chamadas[of h userId r prev]
  by (auto simp: contar_invoke_def contar_insert_def tres_selects_def)

lemma criar_e_inserir_chamadas:
  "fst (criar_e_inserir ins r)
     = Invoke ''create-transacoes'' # (if falhou (s_invoke r) then [] else [ins])"
  by (simp add: criar_e_inserir_def falhou_def split: resposta.splits sum.splits)

lemma apos_insert_chamadas:
  "fst (apos_insert ins r res)
     = (case res of
          Inl e \<Rightarrow> if e_code e = Some ''PGRST205'' then fst (criar_e_inserir ins r) else []
        | Inr u \<Rightarrow> [])"
  by (simp add: apos_insert_def split: sum.splits prod.splits)

lemma salvar_chamadas:
  "fst (salvarTransacao h userId nova r prev)
     = (if \<not> truthy userId then []
        else case s_insert r of
               Rejeitada x \<Rightarrow> [Insert ''transacoes'' nova (modelo userId)]
             | Resolvida res \<Rightarrow>
                 Insert ''transacoes'' nova (modelo userId)
                 # fst (apos_insert (Insert ''transacoes'' nova (modelo userId)) r res)
                 @ (case snd (apos_insert (Insert ''transacoes'' nova (modelo userId)) r res) of
                      Inl x \<Rightarrow> []
                    | Inr u \<Rightarrow> fst (carregarDadosFinanceiros h userId (s_recarga r) prev)))"
  by (simp add: salvarTransacao_def Let_def split: resposta.splits sum.splits prod.splits)

lemma contar_invoke_simps:
  "contar_invoke [] = 0"
  "contar_invoke (Invoke f # cs) = Suc (contar_invoke cs)"
  "contar_invoke (Insert t n u # cs) = contar_invoke cs"
  "contar_invoke (cs @ cs') = contar_invoke cs + contar_invoke cs'"
  by (simp_all add: contar_invoke_def)

lemma contar_insert_simps:
  "contar_insert [] = 0"
  "contar_insert (Invoke f # cs) = contar_insert cs"
  "contar_insert (Insert t n u # cs) = Suc (contar_insert cs)"
  "contar_insert (cs @ cs') = contar_insert cs + contar_insert cs'"
  by (simp_all add: contar_insert_def)

text \<open>
  C4, amended. A save invokes the provisioning function at most once and issues at most
  two inserts. When the user is signed in and the first insert resolves with the error
  code \<open>PGRST205\<close>, the save invokes the provisioning function exactly once, whatever the
  second insert answers; it issues exactly one more insert when the provisioning did not
  fail, and no further insert when the provisioning failed.
\<close>

theorem C4_uma_criacao_uma_repeticao:
  "(let cs = fst (salvarTransacao h userId nova r prev)
    in contar_invoke cs \<le> 1 \<and> contar_insert cs \<le> 2
       \<and> (truthy userId \<and> s_insert r = Resolvida (Inl e) \<and> e_code e = Some ''PGRST205'' \<longrightarrow>
            contar_invoke cs = 1
            \<and> contar_insert cs = (if falhou (s_invoke r) then 1 else 2)))"
proof -
  note c = carregar_sem_escrita[of h userId "s_recarga r" prev]
  show ?thesis
    unfolding Let_def salvar_chamadas
    using c
    by (simp add: apos_insert_chamadas criar_e_inserir_chamadas contar_invoke_simps
        contar_insert_simps split: resposta.splits sum.splits)
qed

theorem C4_uma_criacao_uma_repeticao_witness:
  "truthy (Some ''u1'')
   \<and> s_insert (salvar_relacao_ausente (Resolvida (Inr ())) (Resolvida (Inl erro_relacao)))
       = Resolvida (Inl erro_relacao)
   \<and> e_code erro_relacao = Some ''PGRST205''
   \<and> (let cs = fst (salvarTransacao host_exemplo (Some ''u1'') nova_exemplo
                (salvar_relacao_ausente (Resolvida (Inr ())) (Resolvida (Inl erro_relacao)))
                dados_anteriores)
      in cs = [Insert ''transacoes'' nova_exemplo ''u1'', Invoke ''create-transacoes'',
               Insert ''transacoes'' nova_exemplo ''u1'']
         \<and> contar_invoke cs = 1 \<and> contar_insert cs = 2)"
proof -
  let ?r = "salvar_relacao_ausente (Resolvida (Inr ())) (Resolvida (Inl erro_relacao))"
  have i: "s_insert ?r = Resolvida (Inl erro_relacao)" "\<not> falhou (s_invoke ?r)"
    by (simp_all add: salvar_relacao_ausente_def falhou_def)
  have k: "e_code erro_relacao = Some ''PGRST205''" by (simp add: erro_relacao_def)
  have c: "fst (salvarTransacao host_exemplo (Some ''u1'') nova_exemplo ?r dados_anteriores)
             = [Insert ''transacoes'' nova_exemplo ''u1'', Invoke ''create-transacoes'',
                Insert ''transacoes'' nova_exemplo ''u1'']"
    by (simp add: salvar_chamadas apos_insert_chamadas criar_e_inserir_chamadas truthy_u1 i k
        modelo_def apos_insert_def criar_e_inserir_def salvar_relacao_ausente_def)
  from C4_uma_criacao_uma_repeticao[where h = host_exemplo and userId = "Some ''u1''"
      and nova = nova_exemplo and r = ?r and prev = dados_anteriores and e = erro_relacao]
    truthy_u1 i k
  have "contar_invoke (fst (salvarTransacao host_exemplo (Some ''u1'') nova_exemplo ?r
            dados_anteriores)) = 1
        \<and> contar_insert (fst (salvarTransacao host_exemplo (Some ''u1'') nova_exemplo ?r
            dados_anteriores)) = 2"
    by (simp add: Let_def)
  with c truthy_u1 i(1) k show ?thesis
    unfolding Let_def by blast
qed

text \<open>
  The claim as it stands asks for exactly one more insert whenever the first insert
  resolves with \<open>PGRST205\<close>. When the provisioning fails the save stops after the
  invocation: one insert, no second one.
\<close>

theorem C4_contraexemplo:
  "s_insert (salvar_relacao_ausente (Resolvida (Inl erro_permissao)) (Resolvida (Inr ())))
     = Resolvida (Inl erro_relacao)
   \<and> e_code erro_relacao = Some ''PGRST205''
   \<and> fst (salvarTransacao host_exemplo (Some ''u1'') nova_exemplo
            (salvar_relacao_ausente (Resolvida (Inl erro_permissao)) (Resolvida (Inr ())))
            dados_anteriores)
       = [Insert ''transacoes'' nova_exemplo ''u1'', Invoke ''create-transacoes'']
   \<and> contar_insert (fst (salvarTransacao host_exemplo (Some ''u1'') nova_exemplo
            (salvar_relacao_ausente (Resolvida (Inl erro_permissao)) (Resolvida (Inr ())))
            dados_anteriores)) \<noteq> 2"
  by (simp add: salvarTransacao_def truthy_def modelo_def salvar_relacao_ausente_def
      erro_relacao_def apos_insert_def criar_e_inserir_def contar_insert_def)

subsection \<open>The error of a save after the provisioning\<close>

text \<open>
  C2. In the self-healing path the error of the second insert is to reach the caller
  unchanged. Evaluated with the first insert resolving with \<open>PGRST205\<close>, the provisioning
  succeeding and the second insert resolving with any error \<open>insertError\<close>: the inner
  \<open>try\<close> throws \<open>insertError\<close> (line 241), its own \<open>catch\<close> takes it and throws a new
  \<open>Error\<close> with the fixed text \<open>mensagem_tabela\<close> (line 247), and that is what the save
  throws; \<open>insertError\<close> is lost.
\<close>

theorem C2_erro_do_segundo_insert_trocado:
  "snd (criar_e_inserir ins
       \<lparr>s_insert = Resolvida (Inl \<lparr>e_code = Some ''PGRST205'', e_message = m\<rparr>),
        s_invoke = Resolvida (Inr ()), s_segundo_insert = Resolvida (Inl insertError),
        s_recarga = rc\<rparr>) = Inl (Lancado insertError)
   \<and> fst (snd (salvarTransacao h (Some (u # us)) nova
       \<lparr>s_insert = Resolvida (Inl \<lparr>e_code = Some ''PGRST205'', e_message = m\<rparr>),
        s_invoke = Resolvida (Inr ()), s_segundo_insert = Resolvida (Inl insertError),
        s_recarga = rc\<rparr> prev)) = Inl (Error mensagem_tabela)
   \<and> Error mensagem_tabela \<noteq> Lancado insertError"
  by (simp add: salvarTransacao_def truthy_def apos_insert_def criar_e_inserir_def Let_def)

subsection \<open>Edit and delete\<close>

text \<open>
  C3, amended. An edit is one update by id and a delete is one delete by id on the
  relation \<open>transacoes\<close>. When the call fails (it rejects, or it resolves with an error),
  that error is thrown to the caller, no other call is issued and the state stays as it
  was: no reload runs. When the call succeeds, the load runs next, and the operation
  returns the state the load sets.
\<close>

theorem C3_recarga_somente_apos_sucesso:
  "editarTransacao h userId ident ed r prev =
     (case erro_de (m_resposta r) of
        Some x \<Rightarrow> ([Update ''transacoes'' ident ed], Inl x, prev)
      | None \<Rightarrow>
          (Update ''transacoes'' ident ed
             # fst (carregarDadosFinanceiros h userId (m_recarga r) prev),
           Inr (), snd (carregarDadosFinanceiros h userId (m_recarga r) prev)))
   \<and> excluirTransacao h userId ident r prev =
     (case erro_de (m_resposta r) of
        Some x \<Rightarrow> ([Delete ''transacoes'' ident], Inl x, prev)
      | None \<Rightarrow>
          (Delete ''transacoes'' ident
             # fst (carregarDadosFinanceiros h userId (m_recarga r) prev),
           Inr (), snd (carregarDadosFinanceiros h userId (m_recarga r) prev)))"
  by (simp add: editarTransacao_def excluirTransacao_def erro_de_def Let_def
      split: resposta.splits sum.splits prod.splits)

theorem C3_recarga_somente_apos_sucesso_witness:
  "erro_de (m_resposta mutacao_aceita) = None
   \<and> fst (editarTransacao host_exemplo (Some ''u1'') ''t1'' nova_exemplo mutacao_aceita
            dados_anteriores)
       = [Update ''transacoes'' ''t1'' nova_exemplo, Select ''clientes'', Select ''planos'',
          Select ''produtos'', SelectOrdemDesc ''transacoes'' ''created_at'']
   \<and> entradas (snd (snd (editarTransacao host_exemplo (Some ''u1'') ''t1'' nova_exemplo
        mutacao_aceita dados_anteriores))) = 999 / 5
   \<and> fst (excluirTransacao host_exemplo (Some ''u1'') ''t1'' mutacao_aceita dados_anteriores)
       = [Delete ''transacoes'' ''t1'', Select ''clientes'', Select ''planos'',
          Select ''produtos'', SelectOrdemDesc ''transacoes'' ''created_at'']"
proof -
  have n: "erro_de (m_resposta mutacao_aceita) = None"
    by (simp add: mutacao_aceita_def erro_de_def)
  have m: "m_recarga mutacao_aceita = carga_marco" by (simp add: mutacao_aceita_def)
  have c: "fst (carregarDadosFinanceiros host_exemplo (Some ''u1'') carga_marco dados_anteriores)
             = [Select ''clientes'', Select ''planos'', Select ''produtos'',
                SelectOrdemDesc ''transacoes'' ''created_at'']"
    by (simp add: carregarDadosFinanceiros_def truthy_def carga_marco_def carga_exemplo_def
        tres_selects_def)
  have e: "entradas (snd (carregarDadosFinanceiros host_exemplo (Some ''u1'') carga_marco
             dados_anteriores)) = 999 / 5"
    by code_simp
  note t = C3_recarga_somente_apos_sucesso[where h = host_exemplo and userId = "Some ''u1''"
      and ident = "''t1''" and ed = nova_exemplo and r = mutacao_aceita
      and prev = dados_anteriores, unfolded n m option.case c]
  show ?thesis
    unfolding t[THEN conjunct1] t[THEN conjunct2] using n e by simp
qed

text \<open>
  The claim as it stands has the reload follow the call whether or not the call
  succeeded. An update and a delete that the store refuses are followed by no select, and
  the state stays as it was, where a load would have set other totals.
\<close>

theorem C3_contraexemplo:
  "fst (editarTransacao host_exemplo (Some ''u1'') ''t1'' nova_exemplo mutacao_recusada
          dados_anteriores) = [Update ''transacoes'' ''t1'' nova_exemplo]
   \<and> fst (excluirTransacao host_exemplo (Some ''u1'') ''t1'' mutacao_recusada dados_anteriores)
       = [Delete ''transacoes'' ''t1'']
   \<and> snd (snd (editarTransacao host_exemplo (Some ''u1'') ''t1'' nova_exemplo mutacao_recusada
        dados_anteriores)) = dados_anteriores
   \<and> snd (snd (excluirTransacao host_exemplo (Some ''u1'') ''t1'' mutacao_recusada
        dados_anteriores)) = dados_anteriores
   \<and> snd (carregarDadosFinanceiros host_exemplo (Some ''u1'') (m_recarga mutacao_recusada)
        dados_anteriores) \<noteq> dados_anteriores"
proof -
  have e: "entradas (snd (carregarDadosFinanceiros host_exemplo (Some ''u1'') carga_marco
             dados_anteriores)) = 999 / 5"
    by code_simp
  have "entradas dados_anteriores = 7" by (simp add: dados_anteriores_def)
  with e have "snd (carregarDadosFinanceiros host_exemplo (Some ''u1'') carga_marco
      dados_anteriores) \<noteq> dados_anteriores"
    by auto
  then show ?thesis
    by (simp add: editarTransacao_def excluirTransacao_def mutacao_recusada_def)
qed

end
